theory Spec2Isabelle
  imports Complex_Main "HOL-Library.Log_Nat"
begin

unbundle bit_operations_syntax

section \<open>The RSI trading agent: a shallow embedding of \<^verbatim>\<open>RSI_trading_aiAgent.py\<close>\<close>

text \<open>
  The program is one Python file: a request signer (\<^verbatim>\<open>generate_signature\<close>), an exchange
  client (\<^verbatim>\<open>bitget_request\<close>), two order operations (\<^verbatim>\<open>close_position\<close>,
  \<^verbatim>\<open>open_position\<close>), an indicator fetch (\<^verbatim>\<open>get_rsi_value\<close>), an advisor call
  (\<^verbatim>\<open>get_ai_decision\<close>) and the loop \<^verbatim>\<open>main\<close>.

  Conventions of the model.
  \<^item> A Python \<^verbatim>\<open>str\<close> that the program is given is a \<^typ>\<open>string\<close>, one \<^typ>\<open>char\<close>
    per code point, which covers the code points below 256. Upper-casing leaves that
    range (\<^verbatim>\<open>U+00FF\<close> becomes \<^verbatim>\<open>U+0178\<close>), so a \<^verbatim>\<open>str\<close> that the program computes
    with \<^verbatim>\<open>upper()\<close> is the list of its code points, a \<^typ>\<open>nat list\<close>; \<open>ustr_of\<close>
    gives the code points of a \<^typ>\<open>string\<close>. \<^verbatim>\<open>None\<close> is \<open>None\<close> of an option type.
  \<^item> A Python \<^verbatim>\<open>bytes\<close> value is an \<^typ>\<open>int list\<close> with entries in \<open>0..255\<close>.
  \<^item> An order payload is a \<^verbatim>\<open>dict\<close> from \<^verbatim>\<open>str\<close> to \<^verbatim>\<open>str\<close>, kept in insertion
    order: an association list. The body given to the signer is any value that
    \<^verbatim>\<open>json.dumps\<close> serializes (\<open>pyval\<close> below).
  \<^item> What the standard library and the HTTP, JSON and chat clients compute is written out
    where a property depends on it (string methods, \<^verbatim>\<open>json.dumps\<close>, UTF-8, SHA-256, HMAC,
    base64); what the network answers is an input of the model.
\<close>

subsection \<open>String methods\<close>

text \<open>The code points of a string.\<close>

definition ustr_of :: "string \<Rightarrow> nat list" where
  "ustr_of s = map of_char s"

text \<open>
  \<^verbatim>\<open>str.upper()\<close>, as code points. Below 256 the characters that change are the
  letters \<^verbatim>\<open>a\<close> to \<^verbatim>\<open>z\<close> and \<^verbatim>\<open>U+00E0\<close> to \<^verbatim>\<open>U+00FE\<close> without the division sign
  \<^verbatim>\<open>U+00F7\<close> (32 places down), the micro sign \<^verbatim>\<open>U+00B5\<close> (to the Greek capital mu,
  \<^verbatim>\<open>U+039C\<close>), the sharp s \<^verbatim>\<open>U+00DF\<close> (to the two letters \<^verbatim>\<open>SS\<close>) and \<^verbatim>\<open>U+00FF\<close> (to
  \<^verbatim>\<open>U+0178\<close>).
\<close>

definition upper_points :: "char \<Rightarrow> nat list" where
  "upper_points c =
     (let n = (of_char c :: nat)
      in if (97 \<le> n \<and> n \<le> 122) \<or> (224 \<le> n \<and> n \<le> 246) \<or> (248 \<le> n \<and> n \<le> 254)
         then [n - 32]
         else if n = 181 then [924]
         else if n = 223 then [83, 83]
         else if n = 255 then [376]
         else [n])"

definition py_upper :: "string \<Rightarrow> nat list" where
  "py_upper s = concat (map upper_points s)"

text \<open>
  \<^verbatim>\<open>str.strip()\<close> removes leading and trailing whitespace: the code points 9 to 13, 28 to
  32, 133 and 160 are the ones below 256 for which \<^verbatim>\<open>str.isspace\<close> holds.
\<close>

definition py_isspace :: "char \<Rightarrow> bool" where
  "py_isspace c =
     (let n = (of_char c :: nat)
      in (9 \<le> n \<and> n \<le> 13) \<or> (28 \<le> n \<and> n \<le> 32) \<or> n = 133 \<or> n = 160)"

definition py_strip :: "string \<Rightarrow> string" where
  "py_strip s = rev (dropWhile py_isspace (rev (dropWhile py_isspace s)))"

text \<open>\<^verbatim>\<open>str(n)\<close> for an integer: the decimal digits, with a minus sign when negative.\<close>

definition digit_char :: "int \<Rightarrow> char" where
  "digit_char d = char_of (48 + d)"

function digits :: "int \<Rightarrow> string" where
  "digits n = (if n < 10 then [digit_char n] else digits (n div 10) @ [digit_char (n mod 10)])"
  by pat_completeness auto
termination
  by (relation "measure nat") auto

declare digits.simps [simp del]

definition str_int :: "int \<Rightarrow> string" where
  "str_int n = (if n < 0 then CHR ''-'' # digits (- n) else digits n)"

text \<open>\<^verbatim>\<open>sep.join(xs)\<close>.\<close>

fun py_join :: "string \<Rightarrow> string list \<Rightarrow> string" where
  "py_join sep [] = []"
| "py_join sep [x] = x"
| "py_join sep (x # y # ys) = x @ sep @ py_join sep (y # ys)"

subsection \<open>\<^verbatim>\<open>json.dumps\<close>\<close>

text \<open>
  The values that \<^verbatim>\<open>json.dumps\<close> serializes: \<^verbatim>\<open>None\<close>, booleans, integers, floats,
  strings, lists (and tuples, which are written as lists) and dicts with string keys, in
  insertion order. Of a float the model keeps the two things that the program reads:
  whether it is zero (then it is false as a condition) and the text that \<^verbatim>\<open>json.dumps\<close>
  writes for it (its \<^verbatim>\<open>repr\<close>, or \<^verbatim>\<open>NaN\<close>, \<^verbatim>\<open>Infinity\<close>, \<^verbatim>\<open>-Infinity\<close>). Objects that
  \<^verbatim>\<open>json.dumps\<close> rejects are outside the model.
\<close>

datatype pyval =
    PNone
  | PBool bool
  | PInt int
  | PFloat bool string
  | PStr string
  | PList "pyval list"
  | PDict "(string \<times> pyval) list"

text \<open>An order payload, and a payload or \<^verbatim>\<open>None\<close> as a value.\<close>

type_synonym payload = "(string \<times> string) list"

definition of_payload :: "payload option \<Rightarrow> pyval" where
  "of_payload obj =
     (case obj of None \<Rightarrow> PNone | Some d \<Rightarrow> PDict (map (\<lambda>kv. (fst kv, PStr (snd kv))) d))"

text \<open>
  A string is written between double quotes; with \<^verbatim>\<open>ensure_ascii\<close> (the default) the
  quote and the backslash are escaped, the control characters have their short escapes or
  \<^verbatim>\<open>\u00XX\<close>, and every character outside the printable ASCII range \<open>0x20..0x7E\<close> is
  written \<^verbatim>\<open>\u00XX\<close> in lower-case hexadecimal.
\<close>

definition hex_digit :: "nat \<Rightarrow> char" where
  "hex_digit d = ''0123456789abcdef'' ! d"

definition escape_char :: "char \<Rightarrow> string" where
  "escape_char c =
     (let n = (of_char c :: nat)
      in if n = 0x22 then [CHR 0x5C, CHR 0x22]
         else if n = 0x5C then [CHR 0x5C, CHR 0x5C]
         else if n = 0x0A then [CHR 0x5C, CHR ''n'']
         else if n = 0x0D then [CHR 0x5C, CHR ''r'']
         else if n = 0x09 then [CHR 0x5C, CHR ''t'']
         else if n = 0x08 then [CHR 0x5C, CHR ''b'']
         else if n = 0x0C then [CHR 0x5C, CHR ''f'']
         else if 0x20 \<le> n \<and> n \<le> 0x7E then [c]
         else [CHR 0x5C, CHR ''u'', CHR ''0'', CHR ''0'', hex_digit (n div 16), hex_digit (n mod 16)])"

definition encode_str :: "string \<Rightarrow> string" where
  "encode_str s = [CHR 0x22] @ concat (map escape_char s) @ [CHR 0x22]"

text \<open>
  \<^verbatim>\<open>json.dumps(obj, separators=(item_sep, key_sep))\<close>. Without the \<^verbatim>\<open>separators\<close>
  argument the separators are \<^verbatim>\<open>", "\<close> and \<^verbatim>\<open>": "\<close>.
\<close>

fun json_dumps :: "string \<Rightarrow> string \<Rightarrow> pyval \<Rightarrow> string" where
  "json_dumps item_sep key_sep PNone = ''null''"
| "json_dumps item_sep key_sep (PBool b) = (if b then ''true'' else ''false'')"
| "json_dumps item_sep key_sep (PInt n) = str_int n"
| "json_dumps item_sep key_sep (PFloat zero text) = text"
| "json_dumps item_sep key_sep (PStr s) = encode_str s"
| "json_dumps item_sep key_sep (PList xs) =
     ''['' @ py_join item_sep (map (json_dumps item_sep key_sep) xs) @ '']''"
| "json_dumps item_sep key_sep (PDict kvs) =
     ''{'' @ py_join item_sep
              (map (\<lambda>kv. encode_str (fst kv) @ key_sep @ json_dumps item_sep key_sep (snd kv)) kvs)
       @ ''}''"

definition json_dumps_default :: "pyval \<Rightarrow> string" where
  "json_dumps_default obj = json_dumps '', '' '': '' obj"

subsection \<open>UTF-8, SHA-256, HMAC and base64\<close>

text \<open>
  \<^verbatim>\<open>s.encode("utf-8")\<close> on the code points of \<^verbatim>\<open>s\<close>: one byte below \<^verbatim>\<open>U+0080\<close>, two
  below \<^verbatim>\<open>U+0800\<close>, three below \<^verbatim>\<open>U+10000\<close>, four above. (Python raises on a surrogate
  code point; the strings of the program have none: their code points are below
  \<^verbatim>\<open>U+0400\<close>.)
\<close>

definition encode_point :: "nat \<Rightarrow> int list" where
  "encode_point n =
     (if n < 128 then [int n]
      else if n < 2048 then [192 + int (n div 64), 128 + int (n mod 64)]
      else if n < 65536 then
        [224 + int (n div 4096), 128 + int (n div 64 mod 64), 128 + int (n mod 64)]
      else
        [240 + int (n div 262144), 128 + int (n div 4096 mod 64), 128 + int (n div 64 mod 64),
         128 + int (n mod 64)])"

definition encode_utf8 :: "nat list \<Rightarrow> int list" where
  "encode_utf8 s = concat (map encode_point s)"

text \<open>
  SHA-256 (FIPS 180-4) on 32-bit words kept as integers below \<open>2 ^ 32\<close>, every addition
  reduced modulo \<open>2 ^ 32 = 4294967296\<close>. The round constants are the first 32 bits of
  the fractional parts of the cube roots of the first 64 primes, the initial hash value
  those of the square roots of the first 8 primes, written in decimal.
\<close>

definition add32 :: "int \<Rightarrow> int \<Rightarrow> int" where
  "add32 x y = (x + y) mod 4294967296"

definition rotr :: "nat \<Rightarrow> int \<Rightarrow> int" where
  "rotr n x = drop_bit n x OR (push_bit (32 - n) x mod 4294967296)"

definition ch :: "int \<Rightarrow> int \<Rightarrow> int \<Rightarrow> int" where
  "ch x y z = (x AND y) XOR ((4294967295 - x) AND z)"

definition maj :: "int \<Rightarrow> int \<Rightarrow> int \<Rightarrow> int" where
  "maj x y z = (x AND y) XOR (x AND z) XOR (y AND z)"

definition big_sigma0 :: "int \<Rightarrow> int" where
  "big_sigma0 x = rotr 2 x XOR rotr 13 x XOR rotr 22 x"

definition big_sigma1 :: "int \<Rightarrow> int" where
  "big_sigma1 x = rotr 6 x XOR rotr 11 x XOR rotr 25 x"

definition small_sigma0 :: "int \<Rightarrow> int" where
  "small_sigma0 x = rotr 7 x XOR rotr 18 x XOR drop_bit 3 x"

definition small_sigma1 :: "int \<Rightarrow> int" where
  "small_sigma1 x = rotr 17 x XOR rotr 19 x XOR drop_bit 10 x"

definition sha256_k :: "int list" where
  "sha256_k =
   [1116352408, 1899447441, 3049323471, 3921009573, 961987163, 1508970993,
    2453635748, 2870763221, 3624381080, 310598401, 607225278, 1426881987,
    1925078388, 2162078206, 2614888103, 3248222580, 3835390401, 4022224774,
    264347078, 604807628, 770255983, 1249150122, 1555081692, 1996064986,
    2554220882, 2821834349, 2952996808, 3210313671, 3336571891, 3584528711,
    113926993, 338241895, 666307205, 773529912, 1294757372, 1396182291,
    1695183700, 1986661051, 2177026350, 2456956037, 2730485921, 2820302411,
    3259730800, 3345764771, 3516065817, 3600352804, 4094571909, 275423344,
    430227734, 506948616, 659060556, 883997877, 958139571, 1322822218,
    1537002063, 1747873779, 1955562222, 2024104815, 2227730452, 2361852424,
    2428436474, 2756734187, 3204031479, 3329325298]"

definition sha256_h0 :: "int list" where
  "sha256_h0 =
   [1779033703, 3144134277, 1013904242, 2773480762,
    1359893119, 2600822924, 528734635, 1541459225]"

text \<open>One round on the eight working variables, for the round constant \<open>k\<close> and the
  schedule word \<open>w\<close>.\<close>

fun sha_round :: "int \<Rightarrow> int \<Rightarrow> int list \<Rightarrow> int list" where
  "sha_round k w [a, b, c, d, e, f, g, h] =
     (let t1 = (h + big_sigma1 e + ch e f g + k + w) mod 4294967296;
          t2 = (big_sigma0 a + maj a b c) mod 4294967296
      in [(t1 + t2) mod 4294967296, a, b, c, (d + t1) mod 4294967296, e, f, g])"
| "sha_round _ _ s = s"

text \<open>
  The 64 rounds, over the list of round constants. The message schedule is a window of
  sixteen words: the round uses the oldest word, and the window moves on by the word
  sixteen places later, \<open>W\<^sub>t = \<sigma>\<^sub>1(W\<^sub>t\<^sub>-\<^sub>2) + W\<^sub>t\<^sub>-\<^sub>7 + \<sigma>\<^sub>0(W\<^sub>t\<^sub>-\<^sub>1\<^sub>5) + W\<^sub>t\<^sub>-\<^sub>1\<^sub>6\<close>.
\<close>

fun rounds :: "int list \<Rightarrow> int list \<Rightarrow> int list \<Rightarrow> int list" where
  "rounds (k # ks) [w0, w1, w2, w3, w4, w5, w6, w7, w8, w9, w10, w11, w12, w13, w14, w15] s =
     rounds ks [w1, w2, w3, w4, w5, w6, w7, w8, w9, w10, w11, w12, w13, w14, w15,
                (small_sigma1 w14 + w9 + small_sigma0 w1 + w0) mod 4294967296]
       (sha_round k w0 s)"
| "rounds _ _ s = s"

fun be_words :: "int list \<Rightarrow> int list" where
  "be_words (a # b # c # d # rest) = (((a * 256 + b) * 256 + c) * 256 + d) # be_words rest"
| "be_words _ = []"

definition be_bytes :: "nat \<Rightarrow> int \<Rightarrow> int list" where
  "be_bytes n x = map (\<lambda>i. drop_bit (8 * i) x mod 256) (rev [0..<n])"

function blocks :: "int list \<Rightarrow> int list list" where
  "blocks m = (if m = [] then [] else take 64 m # blocks (drop 64 m))"
  by pat_completeness auto
termination
  by (relation "measure length") auto

declare blocks.simps [simp del]

definition compress :: "int list \<Rightarrow> int list \<Rightarrow> int list" where
  "compress block hs = map2 add32 hs (rounds sha256_k (be_words block) hs)"

definition sha_pad :: "int list \<Rightarrow> int list" where
  "sha_pad m =
     m @ [0x80] @ replicate ((119 - length m mod 64) mod 64) 0 @ be_bytes 8 (8 * int (length m))"

definition sha256 :: "int list \<Rightarrow> int list" where
  "sha256 m = concat (map (be_bytes 4) (fold compress (blocks (sha_pad m)) sha256_h0))"

text \<open>\<^verbatim>\<open>hmac.new(key, msg, hashlib.sha256).digest()\<close> (RFC 2104, block size 64).\<close>

definition hmac_sha256 :: "int list \<Rightarrow> int list \<Rightarrow> int list" where
  "hmac_sha256 key msg =
     (let k0 = (if 64 < length key then sha256 key else key);
          k = k0 @ replicate (64 - length k0) 0
      in sha256 (map (\<lambda>b. b XOR 0x5c) k @ sha256 (map (\<lambda>b. b XOR 0x36) k @ msg)))"

text \<open>
  \<^verbatim>\<open>base64.b64encode(bs).decode("utf-8")\<close>: the standard alphabet with \<^verbatim>\<open>=\<close> padding;
  the encoded bytes are ASCII, so decoding them gives the same characters.
\<close>

definition b64_char :: "int \<Rightarrow> char" where
  "b64_char i = ''ABCDEFGHIJKLMNOPQRSTUVWXYZabcdefghijklmnopqrstuvwxyz0123456789+/'' ! nat i"

fun b64encode :: "int list \<Rightarrow> string" where
  "b64encode (a # b # c # rest) =
     [b64_char (a div 4), b64_char ((a mod 4) * 16 + b div 16),
      b64_char ((b mod 16) * 4 + c div 64), b64_char (c mod 64)] @ b64encode rest"
| "b64encode [a, b] =
     [b64_char (a div 4), b64_char ((a mod 4) * 16 + b div 16), b64_char ((b mod 16) * 4),
      CHR ''='']"
| "b64encode [a] = [b64_char (a div 4), b64_char ((a mod 4) * 16), CHR ''='', CHR ''='']"
| "b64encode [] = []"

subsection \<open>\<^verbatim>\<open>generate_signature\<close>\<close>

text \<open>
  \<^verbatim>\<open>body_str = json.dumps(body, separators=(",", ":")) if body else ""\<close>: the test is
  Python's truth value of \<^verbatim>\<open>body\<close>, false for \<^verbatim>\<open>None\<close>, \<^verbatim>\<open>False\<close>, zero, and the
  empty string, list and dict.
\<close>

fun truthy :: "pyval \<Rightarrow> bool" where
  "truthy PNone = False"
| "truthy (PBool b) = b"
| "truthy (PInt n) = (n \<noteq> 0)"
| "truthy (PFloat zero text) = (\<not> zero)"
| "truthy (PStr s) = (s \<noteq> [])"
| "truthy (PList xs) = (xs \<noteq> [])"
| "truthy (PDict kvs) = (kvs \<noteq> [])"

definition body_str :: "pyval \<Rightarrow> string" where
  "body_str body = (if truthy body then json_dumps '','' '':'' body else '''')"

definition pre_hash :: "string \<Rightarrow> string \<Rightarrow> string \<Rightarrow> pyval \<Rightarrow> nat list" where
  "pre_hash timestamp method request_path body =
     ustr_of timestamp @ py_upper method @ ustr_of request_path @ ustr_of (body_str body)"

definition generate_signature ::
  "string \<Rightarrow> string \<Rightarrow> string \<Rightarrow> pyval \<Rightarrow> string \<Rightarrow> string" where
  "generate_signature timestamp method request_path body secret_key =
     (let mac = hmac_sha256 (encode_utf8 (ustr_of secret_key))
                  (encode_utf8 (pre_hash timestamp method request_path body))
      in b64encode mac)"

text \<open>
  The call as its caller sees it: the value returned, and the object \<^verbatim>\<open>body\<close> after the
  call. The four statements of the function bind the locals \<^verbatim>\<open>body_str\<close>,
  \<^verbatim>\<open>pre_hash\<close> and \<^verbatim>\<open>mac\<close>; \<^verbatim>\<open>body\<close> is read by the truth test and by
  \<^verbatim>\<open>json.dumps\<close>, and nothing is assigned or written to it.
\<close>

definition generate_signature_call ::
  "string \<Rightarrow> string \<Rightarrow> string \<Rightarrow> pyval \<Rightarrow> string \<Rightarrow> string \<times> pyval" where
  "generate_signature_call timestamp method request_path body secret_key =
     (generate_signature timestamp method request_path body secret_key, body)"

subsection \<open>Configuration\<close>

text \<open>
  The module-level constants. Those read with \<^verbatim>\<open>os.getenv\<close> are \<open>None\<close> when the
  variable is not set; \<^verbatim>\<open>GROQ_MODEL\<close> has a default and is always a string.
\<close>

record config =
  BITGET_API_KEY :: "string option"
  BITGET_SECRET :: "string option"
  BITGET_PASSPHRASE :: "string option"
  GROQ_API_KEY :: "string option"
  GROQ_MODEL :: string
  TAAPI_SECRET :: "string option"

definition BASE_URL :: string where
  "BASE_URL = ''https://api.bitget.com''"

definition PAPER_TRADING :: bool where
  "PAPER_TRADING = True"

definition SYMBOL :: string where
  "SYMBOL = ''ETHUSDT''"

text \<open>An f-string writes \<^verbatim>\<open>None\<close> as the text \<^verbatim>\<open>None\<close>.\<close>

definition format_opt :: "string option \<Rightarrow> string" where
  "format_opt x = (case x of None \<Rightarrow> ''None'' | Some s \<Rightarrow> s)"

definition TAAPI_URL :: "config \<Rightarrow> string" where
  "TAAPI_URL cfg =
     ''https://api.taapi.io/rsi?'' @ ''secret='' @ format_opt (TAAPI_SECRET cfg)
       @ ''&exchange=binance&symbol=ETH/USDT&interval=5m''"

subsection \<open>What the outside world answers\<close>

text \<open>
  A parsed JSON document, as \<^verbatim>\<open>response.json()\<close> returns it. A dict is an association
  list with distinct keys. A float is the real number it denotes (\<^verbatim>\<open>NaN\<close> and the
  infinities are outside the model).
\<close>

datatype jvalue =
    JNull
  | JBool bool
  | JInt int
  | JFloat real
  | JStr string
  | JList "jvalue list"
  | JDict "(string \<times> jvalue) list"

text \<open>
  The \<^verbatim>\<open>requests\<close> response object: \<open>status_code\<close>, \<open>resp_text\<close> for
  \<^verbatim>\<open>response.text\<close>, and \<open>resp_json\<close> for what \<^verbatim>\<open>response.json()\<close> does: \<open>None\<close>
  when it raises (the body is not JSON), the parsed document otherwise.
\<close>

record response =
  status_code :: int
  resp_text :: string
  resp_json :: "jvalue option"

text \<open>An HTTP call either raises (no connection, timeout) or returns a response.\<close>

datatype http_result = ConnectionError | Response response

text \<open>
  A chat-completion call either raises (transport, authentication, rate limit) or returns
  a completion; of the completion the model keeps \<^verbatim>\<open>message.content\<close> of each choice,
  \<open>None\<close> where the content is \<^verbatim>\<open>None\<close>.
\<close>

datatype chat_result = APIError | Completion "string option list"

text \<open>The exceptions that leave a function of the program.\<close>

datatype error = AttributeError | GroqError | RequestException

text \<open>
  What the program does to the outside world, in order: the HTTP and chat calls, the
  lines it prints (one constructor for each \<^verbatim>\<open>print\<close> of the source, with the values it
  formats) and the sleeps. \<open>Chat_create\<close> carries the model name and the RSI value
  written into the prompt; \<open>Http_request\<close> carries the method, URL, headers and body.
\<close>

datatype console =
    Msg_start
  | Msg_separator
  | Msg_checking
  | Msg_rsi_failed
  | Msg_skipping
  | Msg_current_rsi real
  | Msg_ai_decision "nat list"
  | Msg_groq_error
  | Msg_nothing
  | Msg_cycle_complete
  | Msg_request string string int
  | Msg_result jvalue

datatype event =
    Http_get string
  | Chat_create string real
  | Http_request string string "(string \<times> string option) list" string
  | Print console
  | Sleep nat

text \<open>
  A function that acts on the world returns the events it caused and then its outcome:
  \<open>Inl\<close> the exception that left it, \<open>Inr\<close> the value it returned. \<open>and_then\<close> is
  sequencing: an exception in the first part skips the second.
\<close>

type_synonym 'a io = "event list \<times> (error + 'a)"

definition and_then :: "'a io \<Rightarrow> ('a \<Rightarrow> 'b io) \<Rightarrow> 'b io" where
  "and_then m k =
     (case m of
        (tr, Inl e) \<Rightarrow> (tr, Inl e)
      | (tr, Inr x) \<Rightarrow> (case k x of (tr', r) \<Rightarrow> (tr @ tr', r)))"

subsection \<open>\<^verbatim>\<open>bitget_request\<close>\<close>

definition bitget_headers :: "config \<Rightarrow> string \<Rightarrow> string \<Rightarrow> (string \<times> string option) list" where
  "bitget_headers cfg signature timestamp =
     [(''ACCESS-KEY'', BITGET_API_KEY cfg),
      (''ACCESS-SIGN'', Some signature),
      (''ACCESS-PASSPHRASE'', BITGET_PASSPHRASE cfg),
      (''ACCESS-TIMESTAMP'', Some timestamp),
      (''Content-Type'', Some ''application/json''),
      (''locale'', Some ''en-US''),
      (''paptrading'', Some (if PAPER_TRADING then ''1'' else ''0''))]"

text \<open>
  \<open>now\<close> is the clock reading \<^verbatim>\<open>int(time.time() * 1000)\<close> and \<open>http\<close> what
  \<^verbatim>\<open>requests.request\<close> does. With no secret configured, \<^verbatim>\<open>secret_key.encode\<close> raises in
  \<^verbatim>\<open>generate_signature\<close>, before any request. The request itself is outside the
  \<^verbatim>\<open>try\<close>: an exception of \<^verbatim>\<open>requests.request\<close> leaves the function. Only
  \<^verbatim>\<open>response.json()\<close> is guarded.
\<close>

definition bitget_request ::
  "config \<Rightarrow> int \<Rightarrow> http_result \<Rightarrow> string \<Rightarrow> string \<Rightarrow> payload option \<Rightarrow> jvalue io" where
  "bitget_request cfg now http method endpoint payload =
     (let timestamp = str_int now
      in case BITGET_SECRET cfg of
           None \<Rightarrow> ([], Inl AttributeError)
         | Some secret \<Rightarrow>
             (let signature =
                    generate_signature timestamp method endpoint (of_payload payload) secret;
                  headers = bitget_headers cfg signature timestamp;
                  url = BASE_URL @ endpoint;
                  call = Http_request method url headers (json_dumps_default (of_payload payload))
              in case http of
                   ConnectionError \<Rightarrow> ([call], Inl RequestException)
                 | Response response \<Rightarrow>
                     (let result = (case resp_json response of
                                      Some parsed \<Rightarrow> parsed
                                    | None \<Rightarrow> JDict [(''error'', JStr (resp_text response))])
                      in ([call,
                           Print (Msg_request method endpoint (status_code response)),
                           Print (Msg_result result)],
                          Inr result))))"

subsection \<open>\<^verbatim>\<open>close_position\<close> and \<^verbatim>\<open>open_position\<close>\<close>

definition close_payload :: "string \<Rightarrow> payload" where
  "close_payload side =
     (let opposite_side = (if side = ''sell'' then ''buy'' else ''sell'')
      in [(''symbol'', SYMBOL),
          (''productType'', ''USDT-FUTURES''),
          (''marginMode'', ''isolated''),
          (''marginCoin'', ''USDT''),
          (''size'', ''1000''),
          (''side'', opposite_side),
          (''tradeSide'', ''close''),
          (''orderType'', ''market''),
          (''force'', ''gtc'')])"

definition open_payload :: "string \<Rightarrow> payload" where
  "open_payload side =
     [(''symbol'', SYMBOL),
      (''productType'', ''USDT-FUTURES''),
      (''marginMode'', ''isolated''),
      (''marginCoin'', ''USDT''),
      (''size'', ''0.05''),
      (''side'', side),
      (''tradeSide'', ''open''),
      (''orderType'', ''market''),
      (''force'', ''gtc'')]"

text \<open>Both discard what \<^verbatim>\<open>bitget_request\<close> returns.\<close>

definition close_position :: "config \<Rightarrow> int \<Rightarrow> http_result \<Rightarrow> string \<Rightarrow> unit io" where
  "close_position cfg now http side =
     and_then
       (bitget_request cfg now http ''POST'' ''/api/v2/mix/order/place-order''
          (Some (close_payload side)))
       (\<lambda>_. ([], Inr ()))"

definition open_position :: "config \<Rightarrow> int \<Rightarrow> http_result \<Rightarrow> string \<Rightarrow> unit io" where
  "open_position cfg now http side =
     and_then
       (bitget_request cfg now http ''POST'' ''/api/v2/mix/order/place-order''
          (Some (open_payload side)))
       (\<lambda>_. ([], Inr ()))"

subsection \<open>\<^verbatim>\<open>get_rsi_value\<close>\<close>

text \<open>\<^verbatim>\<open>data[key]\<close> for a string key: \<open>None\<close> where it raises (\<^verbatim>\<open>KeyError\<close> on a dict
  without the key, \<^verbatim>\<open>TypeError\<close> on anything that is not a dict).\<close>

definition getitem :: "jvalue \<Rightarrow> string \<Rightarrow> jvalue option" where
  "getitem data key = (case data of JDict kvs \<Rightarrow> map_of kvs key | _ \<Rightarrow> None)"

text \<open>
  \<^verbatim>\<open>float(n)\<close> for an integer: exact below \<open>2 ^ 53\<close>, otherwise rounded to 53 significant
  bits, ties to even; \<^verbatim>\<open>OverflowError\<close> (here \<open>None\<close>) when the result would reach
  \<open>2 ^ 1024\<close>.
\<close>

definition float_of_int :: "int \<Rightarrow> real option" where
  "float_of_int n =
     (let a = \<bar>n\<bar>
      in if a < 2 ^ 53 then Some (of_int n)
         else
           (let e = nat (bitlen a) - 53;
                q = a div 2 ^ e;
                r = a mod 2 ^ e;
                h = 2 ^ (e - 1);
                q' = (if h < r \<or> (r = h \<and> odd q) then q + 1 else q);
                v = q' * 2 ^ e
            in if 2 ^ 1024 \<le> v then None else Some (of_int (sgn n * v))))"

text \<open>
  \<^verbatim>\<open>float(v)\<close>, \<open>None\<close> where it raises. On a string Python parses a decimal literal and
  rounds it; that conversion is the parameter \<open>float_of_str\<close> (\<open>None\<close> for
  \<^verbatim>\<open>ValueError\<close>). \<^verbatim>\<open>None\<close>, lists and dicts raise \<^verbatim>\<open>TypeError\<close>.
\<close>

definition py_float :: "(string \<Rightarrow> real option) \<Rightarrow> jvalue \<Rightarrow> real option" where
  "py_float float_of_str v =
     (case v of
        JNull \<Rightarrow> None
      | JBool b \<Rightarrow> Some (if b then 1 else 0)
      | JInt n \<Rightarrow> float_of_int n
      | JFloat x \<Rightarrow> Some x
      | JStr s \<Rightarrow> float_of_str s
      | JList _ \<Rightarrow> None
      | JDict _ \<Rightarrow> None)"

text \<open>
  The whole body is inside \<^verbatim>\<open>try\<close>: whatever raises, the function prints and returns
  \<^verbatim>\<open>None\<close>. The status code of the response is not looked at.
\<close>

definition get_rsi_value ::
  "config \<Rightarrow> (string \<Rightarrow> real option) \<Rightarrow> http_result \<Rightarrow> event list \<times> real option" where
  "get_rsi_value cfg float_of_str http =
     (let value =
            (case http of
               ConnectionError \<Rightarrow> None
             | Response r \<Rightarrow>
                 (case resp_json r of
                    None \<Rightarrow> None
                  | Some data \<Rightarrow>
                      (case getitem data ''value'' of
                         None \<Rightarrow> None
                       | Some v \<Rightarrow> py_float float_of_str v)))
      in case value of
           None \<Rightarrow> ([Http_get (TAAPI_URL cfg), Print Msg_rsi_failed], None)
         | Some x \<Rightarrow> ([Http_get (TAAPI_URL cfg)], Some x))"

subsection \<open>\<^verbatim>\<open>get_ai_decision\<close>\<close>

text \<open>
  The client is built outside the \<^verbatim>\<open>try\<close>: with no API key \<^verbatim>\<open>Groq(api_key=None)\<close>
  raises and the exception leaves the function. Inside the \<^verbatim>\<open>try\<close> are the call, the
  read of \<^verbatim>\<open>choices[0]\<close> (\<^verbatim>\<open>IndexError\<close> on no choice), and \<^verbatim>\<open>.strip()\<close> on the
  content (\<^verbatim>\<open>AttributeError\<close> on \<^verbatim>\<open>None\<close>); each of them ends in the handler, which
  returns \<^verbatim>\<open>"NOTHING"\<close>. Otherwise the function returns the stripped, upper-cased text
  as it is. The value returned is a computed string: its code points.
\<close>

definition get_ai_decision :: "config \<Rightarrow> chat_result \<Rightarrow> real \<Rightarrow> nat list io" where
  "get_ai_decision cfg chat rsi_value =
     (case GROQ_API_KEY cfg of
        None \<Rightarrow> ([], Inl GroqError)
      | Some key \<Rightarrow>
          (let call = Chat_create (GROQ_MODEL cfg) rsi_value
           in case chat of
                APIError \<Rightarrow> ([call, Print Msg_groq_error], Inr (ustr_of ''NOTHING''))
              | Completion choices \<Rightarrow>
                  (case choices of
                     [] \<Rightarrow> ([call, Print Msg_groq_error], Inr (ustr_of ''NOTHING''))
                   | None # _ \<Rightarrow> ([call, Print Msg_groq_error], Inr (ustr_of ''NOTHING''))
                   | Some content # _ \<Rightarrow>
                       (let decision = py_upper (py_strip content)
                        in ([call, Print (Msg_ai_decision decision)], Inr decision)))))"

subsection \<open>\<^verbatim>\<open>main\<close>\<close>

text \<open>
  What the world answers during one pass of the loop: the indicator request, the chat
  call, and for each of the two orders the clock reading and the exchange's answer. The
  order fields are read only when the order is sent.
\<close>

record cycle_env =
  rsi_http :: http_result
  chat :: chat_result
  close_now :: int
  close_http :: http_result
  open_now :: int
  open_http :: http_result

text \<open>One pass of the \<^verbatim>\<open>while True\<close> loop.\<close>

definition main_body :: "config \<Rightarrow> (string \<Rightarrow> real option) \<Rightarrow> cycle_env \<Rightarrow> unit io" where
  "main_body cfg float_of_str env =
     (case get_rsi_value cfg float_of_str (rsi_http env) of
        (tr, None) \<Rightarrow>
          ([Print Msg_separator, Print Msg_checking] @ tr @ [Print Msg_skipping, Sleep 300], Inr ())
      | (tr, Some rsi) \<Rightarrow>
          and_then
            ([Print Msg_separator, Print Msg_checking] @ tr @ [Print (Msg_current_rsi rsi)], Inr ())
            (\<lambda>_. and_then (get_ai_decision cfg (chat env) rsi)
              (\<lambda>decision. and_then
                (if decision = ustr_of ''BUY'' then
                   and_then (close_position cfg (close_now env) (close_http env) ''buy'')
                     (\<lambda>_. open_position cfg (open_now env) (open_http env) ''buy'')
                 else if decision = ustr_of ''SELL'' then
                   and_then (close_position cfg (close_now env) (close_http env) ''sell'')
                     (\<lambda>_. open_position cfg (open_now env) (open_http env) ''sell'')
                 else ([Print Msg_nothing], Inr ()))
                (\<lambda>_. ([Print Msg_cycle_complete, Sleep 300], Inr ())))))"

text \<open>
  The loop has no exit: it ends only when an exception leaves a pass. Given what the
  world answers in the first passes, \<open>main_loop\<close> runs those passes; \<open>Inr ()\<close> then
  means that the loop is still running after them.
\<close>

fun main_loop :: "config \<Rightarrow> (string \<Rightarrow> real option) \<Rightarrow> cycle_env list \<Rightarrow> unit io" where
  "main_loop cfg float_of_str [] = ([], Inr ())"
| "main_loop cfg float_of_str (env # envs) =
     and_then (main_body cfg float_of_str env) (\<lambda>_. main_loop cfg float_of_str envs)"

definition main :: "config \<Rightarrow> (string \<Rightarrow> real option) \<Rightarrow> cycle_env list \<Rightarrow> unit io" where
  "main cfg float_of_str envs =
     and_then ([Print Msg_start], Inr ()) (\<lambda>_. main_loop cfg float_of_str envs)"

text \<open>The calls to the exchange's order endpoint among the events.\<close>

fun is_order_call :: "event \<Rightarrow> bool" where
  "is_order_call (Http_request _ _ _ _) = True"
| "is_order_call _ = False"

definition order_calls :: "event list \<Rightarrow> event list" where
  "order_calls tr = filter is_order_call tr"

text \<open>The request that \<^verbatim>\<open>bitget_request\<close> sends for an order payload at clock reading
  \<open>now\<close>, with the secret \<open>secret\<close>.\<close>

definition order_request :: "config \<Rightarrow> string \<Rightarrow> int \<Rightarrow> payload \<Rightarrow> event" where
  "order_request cfg secret now p =
     Http_request ''POST'' (BASE_URL @ ''/api/v2/mix/order/place-order'')
       (bitget_headers cfg
          (generate_signature (str_int now) ''POST'' ''/api/v2/mix/order/place-order''
             (of_payload (Some p)) secret)
          (str_int now))
       (json_dumps_default (of_payload (Some p)))"

subsection \<open>The signer as the specification words it\<close>

text \<open>
  The specification's canonical body: the compact JSON serialization of the body, or the
  empty string when the body is absent. \<open>sign_spec\<close> is the specification's signature:
  base64 of the HMAC-SHA256, keyed by the secret, of the UTF-8 bytes of timestamp,
  upper-cased method, path and canonical body.
\<close>

definition canonical_body_spec :: "pyval \<Rightarrow> string" where
  "canonical_body_spec body = (if body = PNone then '''' else json_dumps '','' '':'' body)"

definition sign_spec ::
  "string \<Rightarrow> string \<Rightarrow> string \<Rightarrow> pyval \<Rightarrow> string \<Rightarrow> string" where
  "sign_spec timestamp method path body secret =
     b64encode (hmac_sha256 (encode_utf8 (ustr_of secret))
       (encode_utf8
          (ustr_of timestamp @ py_upper method @ ustr_of path
             @ ustr_of (canonical_body_spec body))))"

text \<open>
  The whitespace that the contents of a value bring into its serialization: the spaces
  of its keys and strings (every other whitespace character of a string is written as an
  escape) and the whitespace of the float texts. A serialization that inserts no
  whitespace has this whitespace and no other.
\<close>

fun content_spaces :: "pyval \<Rightarrow> string" where
  "content_spaces PNone = []"
| "content_spaces (PBool b) = []"
| "content_spaces (PInt n) = []"
| "content_spaces (PFloat zero text) = filter py_isspace text"
| "content_spaces (PStr s) = filter (\<lambda>c. c = CHR '' '') s"
| "content_spaces (PList xs) = concat (map content_spaces xs)"
| "content_spaces (PDict kvs) =
     concat (map (\<lambda>kv. filter (\<lambda>c. c = CHR '' '') (fst kv) @ content_spaces (snd kv)) kvs)"

subsection \<open>Example inputs\<close>

text \<open>
  A configuration with every variable set, and the answers of the world in a pass where
  the indicator is 25, the advisor says BUY and the exchange accepts both orders. None of
  the examples converts a string to a float, so the string conversion rejects everything.
\<close>

definition example_config :: config where
  "example_config =
     \<lparr>BITGET_API_KEY = Some ''key'', BITGET_SECRET = Some ''secret'',
      BITGET_PASSPHRASE = Some ''passphrase'', GROQ_API_KEY = Some ''gsk'',
      GROQ_MODEL = ''llama-3.3-70b-versatile'', TAAPI_SECRET = Some ''taapi''\<rparr>"

definition no_float_of_str :: "string \<Rightarrow> real option" where
  "no_float_of_str s = None"

definition rsi_ok :: http_result where
  \<open>rsi_ok =
     Response \<lparr>status_code = 200, resp_text = ''{"value": 25}'',
               resp_json = Some (JDict [(''value'', JInt 25)])\<rparr>\<close>

definition rsi_status_500 :: http_result where
  \<open>rsi_status_500 =
     Response \<lparr>status_code = 500, resp_text = ''{"value": 50}'',
               resp_json = Some (JDict [(''value'', JInt 50)])\<rparr>\<close>

definition order_ok :: http_result where
  \<open>order_ok =
     Response \<lparr>status_code = 200, resp_text = ''{"code": "00000"}'',
               resp_json = Some (JDict [(''code'', JStr ''00000'')])\<rparr>\<close>

definition order_rejected :: http_result where
  \<open>order_rejected =
     Response \<lparr>status_code = 400, resp_text = ''{"code": "00000"}'',
               resp_json = Some (JDict [(''code'', JStr ''00000'')])\<rparr>\<close>

definition order_not_json :: http_result where
  \<open>order_not_json =
     Response \<lparr>status_code = 502, resp_text = ''<html>Bad Gateway</html>'', resp_json = None\<rparr>\<close>

definition env_buy :: cycle_env where
  "env_buy =
     \<lparr>rsi_http = rsi_ok, chat = Completion [Some ''BUY''],
      close_now = 1730000000000, close_http = order_ok,
      open_now = 1730000000500, open_http = order_ok\<rparr>"

subsection \<open>Lemmas on the library functions\<close>

lemma ustr_of_eq_iff: "ustr_of s = ustr_of t \<longleftrightarrow> s = t"
  by (simp add: ustr_of_def inj_map_eq_map [OF inj_of_char])

lemma length_ustr_of: "length (ustr_of s) = length s"
  by (simp add: ustr_of_def)

lemma length_py_join:
  "length (py_join sep xs) = sum_list (map length xs) + (length xs - 1) * length sep"
  by (induction sep xs rule: py_join.induct) simp_all

text \<open>The serialization of an order payload, and its length.\<close>

lemma json_dumps_payload:
  "json_dumps item_sep key_sep (of_payload (Some d))
     = ''{'' @ py_join item_sep
                (map (\<lambda>kv. encode_str (fst kv) @ key_sep @ encode_str (snd kv)) d) @ ''}''"
  by (simp add: of_payload_def comp_def)

lemma length_dumps_items:
  "sum_list (map (length \<circ> (\<lambda>kv. encode_str (fst kv) @ key_sep @ encode_str (snd kv))) d)
     = sum_list (map (\<lambda>kv. length (encode_str (fst kv)) + length (encode_str (snd kv))) d)
       + length d * length key_sep"
  by (induction d) simp_all

lemma length_json_dumps:
  "length (json_dumps item_sep key_sep (of_payload (Some d)))
     = 2 + sum_list (map (\<lambda>kv. length (encode_str (fst kv)) + length (encode_str (snd kv))) d)
       + length d * length key_sep + (length d - 1) * length item_sep"
  by (simp add: json_dumps_payload length_py_join length_dumps_items)

lemma truthy_payload: "truthy (of_payload (Some d)) \<longleftrightarrow> d \<noteq> []"
  by (simp add: of_payload_def)

lemma compact_shorter:
  "d \<noteq> [] \<Longrightarrow>
   length (body_str (of_payload (Some d))) < length (json_dumps_default (of_payload (Some d)))"
  by (cases d)
     (simp_all add: body_str_def truthy_payload json_dumps_default_def length_json_dumps)

lemma encode_utf8_Nil: "encode_utf8 [] = []"
  by (simp add: encode_utf8_def)

lemma encode_utf8_Cons: "encode_utf8 (n # s) = encode_point n @ encode_utf8 s"
  by (simp add: encode_utf8_def)

lemma encode_point_of_char:
  "encode_point (of_char c) =
     (if (of_char c :: nat) < 128 then [int (of_char c)]
      else [192 + int (of_char c div 64), 128 + int (of_char c mod 64)])"
proof -
  have "(of_char c :: nat) < 2048"
    using nat_of_char_less_256 [of c] by linarith
  then show ?thesis
    by (simp add: encode_point_def)
qed

text \<open>Different strings have different UTF-8 encodings.\<close>

lemma encode_utf8_inj: "encode_utf8 (ustr_of s) = encode_utf8 (ustr_of t) \<Longrightarrow> s = t"
proof (induction s arbitrary: t)
  case Nil
  then show ?case
    by (cases t)
       (simp_all add: ustr_of_def encode_utf8_Nil encode_utf8_Cons encode_point_of_char
          split: if_splits)
next
  case (Cons c s)
  show ?case
  proof (cases t)
    case Nil
    with Cons.prems show ?thesis
      by (simp add: ustr_of_def encode_utf8_Nil encode_utf8_Cons encode_point_of_char
          split: if_splits)
  next
    case (Cons c' t')
    from Cons.prems Cons have eq:
      "encode_point (of_char c) @ encode_utf8 (ustr_of s)
       = encode_point (of_char c') @ encode_utf8 (ustr_of t')"
      by (simp add: ustr_of_def encode_utf8_Cons)
    have "(of_char c :: nat) = of_char c' \<and> encode_utf8 (ustr_of s) = encode_utf8 (ustr_of t')"
    proof (cases "(of_char c :: nat) < 128"; cases "(of_char c' :: nat) < 128")
      assume "(of_char c :: nat) < 128" "(of_char c' :: nat) < 128"
      with eq show ?thesis
        by (simp add: encode_point_of_char del: of_char_eq_iff)
    next
      assume "(of_char c :: nat) < 128" "\<not> (of_char c' :: nat) < 128"
      with eq show ?thesis
        by (simp add: encode_point_of_char del: of_char_eq_iff)
    next
      assume "\<not> (of_char c :: nat) < 128" "(of_char c' :: nat) < 128"
      with eq show ?thesis
        by (simp add: encode_point_of_char del: of_char_eq_iff)
    next
      assume "\<not> (of_char c :: nat) < 128" "\<not> (of_char c' :: nat) < 128"
      with eq have "(of_char c :: nat) div 64 = of_char c' div 64"
        "(of_char c :: nat) mod 64 = of_char c' mod 64"
        "encode_utf8 (ustr_of s) = encode_utf8 (ustr_of t')"
        by (simp_all add: encode_point_of_char del: of_char_eq_iff)
      moreover have "(of_char c :: nat) = 64 * (of_char c div 64) + of_char c mod 64"
        "(of_char c' :: nat) = 64 * (of_char c' div 64) + of_char c' mod 64"
        by simp_all
      ultimately show ?thesis by (simp del: of_char_eq_iff)
    qed
    then show ?thesis
      using Cons.IH [of t'] Cons by simp
  qed
qed

text \<open>
  The hash functions agree with the published test vectors: SHA-256 of \<^verbatim>\<open>abc\<close>
  (FIPS 180-4) and HMAC-SHA256 test case 2 of RFC 4231.
\<close>

lemma sha256_abc:
  "sha256 (encode_utf8 (ustr_of ''abc'')) =
     [186, 120, 22, 191, 143, 1, 207, 234, 65, 65, 64, 222, 93, 174, 34, 35,
      176, 3, 97, 163, 150, 23, 122, 156, 180, 16, 255, 97, 242, 0, 21, 173]"
  by code_simp

lemma hmac_sha256_rfc4231_case2:
  "hmac_sha256 (encode_utf8 (ustr_of ''Jefe''))
     (encode_utf8 (ustr_of ''what do ya want for nothing?'')) =
     [91, 220, 193, 70, 191, 96, 117, 78, 106, 4, 36, 38, 8, 149, 117, 199,
      90, 0, 63, 8, 157, 39, 57, 131, 157, 236, 88, 185, 100, 236, 56, 67]"
  by code_simp

text \<open>The two signatures of the empty dict: the program's and the specification's.\<close>

lemma generate_signature_empty_dict:
  "generate_signature ''1730000000000'' ''POST'' ''/api/v2/mix/order/place-order'' (PDict [])
     ''secret'' = ''UMlxErDrn+X/C/zstt4x4MNavAEDEGQBoqOSPjwRRRM=''"
  by code_simp

lemma sign_spec_empty_dict:
  "sign_spec ''1730000000000'' ''POST'' ''/api/v2/mix/order/place-order'' (PDict [])
     ''secret'' = ''VinZqTcvw5pHbJ7Am7fjh6iAImoPUP6XV5AVYVnpKao=''"
  by code_simp

text \<open>
  The whitespace of a compact serialization is the whitespace of the contents: the
  separators, brackets, quotes, escapes, digits and literals have none.
\<close>

lemma hex_digits_not_space: "\<forall>c \<in> set ''0123456789abcdef''. \<not> py_isspace c"
  by code_simp

lemma hex_digit_not_space: "d < 16 \<Longrightarrow> \<not> py_isspace (hex_digit d)"
  using hex_digits_not_space nth_mem [of d "''0123456789abcdef''"]
  by (simp add: hex_digit_def del: set_simps)

lemma punctuation_not_space:
  "\<forall>c \<in> set [CHR 0x5C, CHR 0x22, CHR ''n'', CHR ''r'', CHR ''t'', CHR ''b'', CHR ''f'',
              CHR ''u'', CHR ''0'', CHR ''{'', CHR ''}'', CHR ''['', CHR '']'', CHR '','',
              CHR '':'', CHR ''-''].
     \<not> py_isspace c"
  by code_simp

lemma literals_no_space:
  "filter py_isspace ''null'' = [] \<and> filter py_isspace ''true'' = []
   \<and> filter py_isspace ''false'' = []"
  by code_simp

lemma isspace_space: "py_isspace (CHR '' '')"
  by code_simp

lemma isspace_printable:
  assumes "py_isspace c" and "0x20 \<le> (of_char c :: nat)" and "(of_char c :: nat) \<le> 0x7E"
  shows "c = CHR '' ''"
proof -
  from assms have "(of_char c :: nat) = 32"
    by (auto simp: py_isspace_def Let_def)
  then have "(of_char c :: nat) = of_char (CHR '' '')"
    by simp
  then show ?thesis
    by (simp only: of_char_eq_iff)
qed

lemma escape_char_spaces:
  "filter py_isspace (escape_char c) = (if c = CHR '' '' then [c] else [])"
proof -
  have h: "\<not> py_isspace (hex_digit (of_char c div 16))" "\<not> py_isspace (hex_digit (of_char c mod 16))"
    by (rule hex_digit_not_space, simp add: less_mult_imp_div_less)+
  have sp: "escape_char (CHR '' '') = [CHR '' '']"
    by code_simp
  show ?thesis
  proof (cases "c = CHR '' ''")
    case True
    then show ?thesis
      by (simp add: sp isspace_space)
  next
    case False
    then show ?thesis
      using h punctuation_not_space isspace_printable [of c]
      by (auto simp: escape_char_def Let_def)
  qed
qed

lemma encode_str_spaces: "filter py_isspace (encode_str s) = filter (\<lambda>c. c = CHR '' '') s"
proof -
  have "filter py_isspace (concat (map escape_char s)) = filter (\<lambda>c. c = CHR '' '') s"
    by (induction s) (simp_all add: escape_char_spaces)
  then show ?thesis
    using punctuation_not_space by (simp add: encode_str_def)
qed

lemma digit_char_not_space: "0 \<le> d \<Longrightarrow> d < 10 \<Longrightarrow> \<not> py_isspace (digit_char d)"
proof -
  assume "0 \<le> d" "d < 10"
  then have "d = 0 \<or> d = 1 \<or> d = 2 \<or> d = 3 \<or> d = 4 \<or> d = 5 \<or> d = 6 \<or> d = 7 \<or> d = 8 \<or> d = 9"
    by presburger
  then have "d \<in> {0, 1, 2, 3, 4, 5, 6, 7, 8, 9}"
    by blast
  moreover have "\<forall>d \<in> {0, 1, 2, 3, 4, 5, 6, 7, 8, 9 :: int}. \<not> py_isspace (digit_char d)"
    by code_simp
  ultimately show ?thesis
    by blast
qed

lemma digits_no_space: "0 \<le> n \<Longrightarrow> filter py_isspace (digits n) = []"
proof (induction n rule: digits.induct)
  case (1 n)
  show ?case
  proof (cases "n < 10")
    case True
    with "1.prems" show ?thesis
      by (subst digits.simps) (simp add: digit_char_not_space)
  next
    case False
    with "1.prems" have "0 \<le> n div 10" "0 \<le> n mod 10" "n mod 10 < 10"
      by simp_all
    with False "1.IH" show ?thesis
      by (subst digits.simps) (simp add: digit_char_not_space)
  qed
qed

lemma str_int_no_space: "filter py_isspace (str_int n) = []"
  using punctuation_not_space by (simp add: str_int_def digits_no_space)

lemma filter_py_join:
  "filter P sep = [] \<Longrightarrow> filter P (py_join sep xs) = concat (map (filter P) xs)"
  by (induction sep xs rule: py_join.induct) simp_all

lemma compact_dumps_spaces: "filter py_isspace (json_dumps '','' '':'' v) = content_spaces v"
proof (induction v)
  case (PList xs)
  have h: "map (filter py_isspace \<circ> json_dumps '','' '':'') xs = map content_spaces xs"
    using PList by simp
  show ?case
    using punctuation_not_space by (simp add: filter_py_join h)
next
  case (PDict kvs)
  have h: "map (filter py_isspace \<circ> (\<lambda>kv. encode_str (fst kv) @ CHR '':'' # json_dumps '','' '':'' (snd kv))) kvs
        = map (\<lambda>kv. filter (\<lambda>c. c = CHR '' '') (fst kv) @ content_spaces (snd kv)) kvs"
  proof (rule map_cong [OF refl])
    fix kv
    assume kv: "kv \<in> set kvs"
    have "snd kv \<in> Basic_BNFs.snds kv"
      by (cases kv) simp
    with kv PDict have "filter py_isspace (json_dumps '','' '':'' (snd kv)) = content_spaces (snd kv)"
      by blast
    then show "(filter py_isspace \<circ> (\<lambda>kv. encode_str (fst kv) @ CHR '':'' # json_dumps '','' '':'' (snd kv))) kv
               = filter (\<lambda>c. c = CHR '' '') (fst kv) @ content_spaces (snd kv)"
      using punctuation_not_space by (simp add: encode_str_spaces)
  qed
  show ?case
    using punctuation_not_space by (simp add: filter_py_join h)
next
  case PNone
  show ?case
    using literals_no_space by simp
next
  case (PBool b)
  show ?case
    using literals_no_space by (cases b) simp_all
qed (simp_all add: str_int_no_space encode_str_spaces)

text \<open>The string and float conversions at the values of the examples.\<close>

lemma upper_strip_BUY: "py_upper (py_strip ''BUY'') = ustr_of ''BUY''"
  by code_simp

lemma upper_strip_SELL_please:
  "py_upper (py_strip ''SELL please, I'm confident'') = ustr_of ''SELL PLEASE, I'M CONFIDENT''"
  by code_simp

lemma float_of_int_25: "float_of_int 25 = Some 25"
  by (simp add: float_of_int_def)

lemma float_of_int_50: "float_of_int 50 = Some 50"
  by (simp add: float_of_int_def)

text \<open>Sequencing, and the order calls in what each function does.\<close>

lemma fst_and_then:
  "fst (and_then m k) = (case snd m of Inl e \<Rightarrow> fst m | Inr x \<Rightarrow> fst m @ fst (k x))"
  by (simp add: and_then_def split: prod.splits sum.splits)

lemma snd_and_then:
  "snd (and_then m k) = (case snd m of Inl e \<Rightarrow> Inl e | Inr x \<Rightarrow> snd (k x))"
  by (simp add: and_then_def split: prod.splits sum.splits)

lemma order_calls_append: "order_calls (a @ b) = order_calls a @ order_calls b"
  by (simp add: order_calls_def)

lemma order_calls_Nil: "order_calls [] = []"
  by (simp add: order_calls_def)

lemma order_calls_Cons:
  "order_calls (e # tr) = (if is_order_call e then e # order_calls tr else order_calls tr)"
  by (simp add: order_calls_def)

lemma order_calls_and_then_tail:
  "order_calls (fst (and_then m (\<lambda>_. ([Print a, Sleep n], Inr ())))) = order_calls (fst m)"
  by (simp add: fst_and_then order_calls_append order_calls_Cons order_calls_Nil split: sum.splits)

lemma order_calls_get_rsi_value: "order_calls (fst (get_rsi_value cfg flt http)) = []"
  by (simp add: get_rsi_value_def order_calls_def split: option.splits)

lemma order_calls_get_ai_decision: "order_calls (fst (get_ai_decision cfg c rsi)) = []"
  by (simp add: get_ai_decision_def order_calls_def Let_def
      split: option.splits chat_result.splits list.splits)

lemma order_calls_bitget_request:
  "BITGET_SECRET cfg = Some secret \<Longrightarrow>
   order_calls (fst (bitget_request cfg now http ''POST'' ''/api/v2/mix/order/place-order'' (Some p)))
     = [order_request cfg secret now p]"
  by (cases http) (simp_all add: bitget_request_def order_calls_def order_request_def Let_def)

lemma order_calls_close_position:
  "BITGET_SECRET cfg = Some secret \<Longrightarrow>
   order_calls (fst (close_position cfg now http side))
     = [order_request cfg secret now (close_payload side)]"
  by (simp add: close_position_def fst_and_then order_calls_bitget_request split: sum.splits)

lemma order_calls_open_position:
  "BITGET_SECRET cfg = Some secret \<Longrightarrow>
   order_calls (fst (open_position cfg now http side))
     = [order_request cfg secret now (open_payload side)]"
  by (simp add: open_position_def fst_and_then order_calls_bitget_request split: sum.splits)

lemma snd_close_position:
  "snd (close_position cfg now http side) =
     (case BITGET_SECRET cfg of
        None \<Rightarrow> Inl AttributeError
      | Some _ \<Rightarrow> (case http of ConnectionError \<Rightarrow> Inl RequestException | Response _ \<Rightarrow> Inr ()))"
  by (simp add: close_position_def snd_and_then bitget_request_def Let_def
      split: option.splits http_result.splits)

lemma snd_open_position:
  "snd (open_position cfg now http side) =
     (case BITGET_SECRET cfg of
        None \<Rightarrow> Inl AttributeError
      | Some _ \<Rightarrow> (case http of ConnectionError \<Rightarrow> Inl RequestException | Response _ \<Rightarrow> Inr ()))"
  by (simp add: open_position_def snd_and_then bitget_request_def Let_def
      split: option.splits http_result.splits)

text \<open>One pass of the loop, once the indicator has been read.\<close>

lemma order_calls_main_body:
  assumes "snd (get_rsi_value cfg flt (rsi_http env)) = Some rsi"
  shows "order_calls (fst (main_body cfg flt env)) =
     (case snd (get_ai_decision cfg (chat env) rsi) of
        Inl e \<Rightarrow> []
      | Inr decision \<Rightarrow>
          if decision = ustr_of ''BUY'' then
            order_calls (fst (and_then (close_position cfg (close_now env) (close_http env) ''buy'')
                (\<lambda>_. open_position cfg (open_now env) (open_http env) ''buy'')))
          else if decision = ustr_of ''SELL'' then
            order_calls (fst (and_then (close_position cfg (close_now env) (close_http env) ''sell'')
                (\<lambda>_. open_position cfg (open_now env) (open_http env) ''sell'')))
          else [])"
proof -
  obtain tr where g: "get_rsi_value cfg flt (rsi_http env) = (tr, Some rsi)"
    using assms by (cases "get_rsi_value cfg flt (rsi_http env)") simp
  have tr: "order_calls tr = []"
    using order_calls_get_rsi_value [of cfg flt "rsi_http env"] g by simp
  show ?thesis
  proof (cases "snd (get_ai_decision cfg (chat env) rsi)")
    case (Inl e)
    then show ?thesis
      using tr
      by (simp add: main_body_def g fst_and_then order_calls_append order_calls_Cons
          order_calls_Nil order_calls_get_ai_decision)
  next
    case (Inr decision)
    then show ?thesis
      using tr
      by (simp add: main_body_def g fst_and_then [of "(_, Inr ())"]
          fst_and_then [of "get_ai_decision cfg (chat env) rsi"]
          order_calls_append order_calls_Cons order_calls_Nil order_calls_get_ai_decision
          order_calls_and_then_tail)
  qed
qed

lemma snd_main_body:
  assumes "snd (get_rsi_value cfg flt (rsi_http env)) = Some rsi"
  shows "snd (main_body cfg flt env) =
     (case snd (get_ai_decision cfg (chat env) rsi) of
        Inl e \<Rightarrow> Inl e
      | Inr decision \<Rightarrow>
          if decision = ustr_of ''BUY'' then
            snd (and_then (close_position cfg (close_now env) (close_http env) ''buy'')
                (\<lambda>_. open_position cfg (open_now env) (open_http env) ''buy''))
          else if decision = ustr_of ''SELL'' then
            snd (and_then (close_position cfg (close_now env) (close_http env) ''sell'')
                (\<lambda>_. open_position cfg (open_now env) (open_http env) ''sell''))
          else Inr ())"
proof -
  obtain tr where g: "get_rsi_value cfg flt (rsi_http env) = (tr, Some rsi)"
    using assms by (cases "get_rsi_value cfg flt (rsi_http env)") simp
  show ?thesis
  proof (cases "snd (get_ai_decision cfg (chat env) rsi)")
    case (Inl e)
    then show ?thesis
      by (simp add: main_body_def g snd_and_then)
  next
    case (Inr decision)
    then show ?thesis
      by (simp add: main_body_def g snd_and_then [of "(_, Inr ())"]
          snd_and_then [of "get_ai_decision cfg (chat env) rsi"]
          snd_and_then [of "if _ then _ else _"] split: sum.splits)
  qed
qed

text \<open>A pass without an indicator value, and a run of such passes: the loop goes on.\<close>

lemma main_body_no_indicator:
  assumes "snd (get_rsi_value cfg flt (rsi_http env)) = None"
  shows "main_body cfg flt env
           = ([Print Msg_separator, Print Msg_checking, Http_get (TAAPI_URL cfg),
               Print Msg_rsi_failed, Print Msg_skipping, Sleep 300], Inr ())"
proof -
  have "get_rsi_value cfg flt (rsi_http env)
          = ([Http_get (TAAPI_URL cfg), Print Msg_rsi_failed], None)"
    using assms by (simp add: get_rsi_value_def split: option.splits)
  then show ?thesis
    by (simp add: main_body_def)
qed

lemma main_loop_no_indicator:
  assumes "\<forall>env \<in> set envs. snd (get_rsi_value cfg flt (rsi_http env)) = None"
  shows "order_calls (fst (main cfg flt envs)) = [] \<and> snd (main cfg flt envs) = Inr ()"
proof -
  have "order_calls (fst (main_loop cfg flt envs)) = [] \<and> snd (main_loop cfg flt envs) = Inr ()"
    using assms
  proof (induction envs)
    case Nil
    then show ?case by (simp add: order_calls_Nil)
  next
    case (Cons env envs)
    then show ?case
      by (simp add: main_body_no_indicator fst_and_then snd_and_then order_calls_append
          order_calls_Cons order_calls_Nil)
  qed
  then show ?thesis
    by (simp add: main_def fst_and_then snd_and_then order_calls_Cons)
qed

section \<open>The claims\<close>

subsection \<open>C1\<close>

text \<open>
  C1, as stated: in every pass in which the decision is BUY the scheduler makes exactly
  one close call (targeting the sell side) followed by exactly one open call. The
  request of \<^verbatim>\<open>bitget_request\<close> is outside its \<^verbatim>\<open>try\<close>: when the close request
  raises (no connection), the exception ends the pass, and the program, after the close
  call alone.
\<close>

theorem buy_pass_without_open_counterexample:
  "snd (get_rsi_value example_config no_float_of_str
          (rsi_http (env_buy\<lparr>close_http := ConnectionError\<rparr>))) = Some 25
   \<and> snd (get_ai_decision example_config (chat (env_buy\<lparr>close_http := ConnectionError\<rparr>)) 25)
       = Inr (ustr_of ''BUY'')
   \<and> order_calls (fst (main_body example_config no_float_of_str
          (env_buy\<lparr>close_http := ConnectionError\<rparr>)))
       = [order_request example_config ''secret'' 1730000000000 (close_payload ''buy'')]
   \<and> snd (main_body example_config no_float_of_str (env_buy\<lparr>close_http := ConnectionError\<rparr>))
       = Inl RequestException"
proof -
  have r: "snd (get_rsi_value example_config no_float_of_str
                  (rsi_http (env_buy\<lparr>close_http := ConnectionError\<rparr>))) = Some 25"
    by (simp add: env_buy_def rsi_ok_def get_rsi_value_def getitem_def py_float_def float_of_int_25)
  have s: "BITGET_SECRET example_config = Some ''secret''"
    by (simp add: example_config_def)
  have d: "snd (get_ai_decision example_config (Completion [Some ''BUY'']) 25)
             = Inr (ustr_of ''BUY'')"
    by (simp add: get_ai_decision_def example_config_def Let_def upper_strip_BUY)
  have c: "snd (close_position example_config 1730000000000 ConnectionError ''buy'')
             = Inl RequestException"
    by (simp add: snd_close_position s)
  have "order_calls (fst (main_body example_config no_float_of_str
          (env_buy\<lparr>close_http := ConnectionError\<rparr>)))
       = [order_request example_config ''secret'' 1730000000000 (close_payload ''buy'')]"
    using order_calls_main_body [OF r]
    by (simp add: env_buy_def d c fst_and_then order_calls_close_position [OF s])
  moreover have "snd (main_body example_config no_float_of_str
          (env_buy\<lparr>close_http := ConnectionError\<rparr>)) = Inl RequestException"
    using snd_main_body [OF r]
    by (simp add: env_buy_def d c snd_and_then)
  moreover have "snd (get_ai_decision example_config
          (chat (env_buy\<lparr>close_http := ConnectionError\<rparr>)) 25) = Inr (ustr_of ''BUY'')"
    using d by (simp add: env_buy_def)
  ultimately show ?thesis
    using r by blast
qed

text \<open>
  C1, amended: in every pass in which the decision is BUY and the close call returns
  (a secret is configured and the close request gets a response), the exchange calls of
  the pass are exactly two, in this order: the close request, whose payload targets the
  sell side, and the open request for the buy side. Symmetrically for SELL: the close
  request targeting the buy side, then the open request for the sell side.
\<close>

theorem close_then_open:
  assumes "snd (get_rsi_value cfg flt (rsi_http env)) = Some rsi"
    and "snd (get_ai_decision cfg (chat env) rsi) = Inr decision"
    and "BITGET_SECRET cfg = Some secret"
    and "close_http env = Response r"
  shows "(decision = ustr_of ''BUY'' \<longrightarrow>
            order_calls (fst (main_body cfg flt env))
              = [order_request cfg secret (close_now env) (close_payload ''buy''),
                 order_request cfg secret (open_now env) (open_payload ''buy'')]
            \<and> map_of (close_payload ''buy'') ''side'' = Some ''sell'')
       \<and> (decision = ustr_of ''SELL'' \<longrightarrow>
            order_calls (fst (main_body cfg flt env))
              = [order_request cfg secret (close_now env) (close_payload ''sell''),
                 order_request cfg secret (open_now env) (open_payload ''sell'')]
            \<and> map_of (close_payload ''sell'') ''side'' = Some ''buy'')"
proof -
  have c: "snd (close_position cfg (close_now env) (close_http env) side) = Inr ()" for side
    using assms(3,4) by (simp add: snd_close_position)
  show ?thesis
    by (simp add: order_calls_main_body [OF assms(1)] assms(2) c fst_and_then order_calls_append
        order_calls_close_position [OF assms(3)] order_calls_open_position [OF assms(3)]
        close_payload_def ustr_of_eq_iff)
qed

theorem close_then_open_witness:
  "snd (get_rsi_value example_config no_float_of_str (rsi_http env_buy)) = Some 25
   \<and> snd (get_ai_decision example_config (chat env_buy) 25) = Inr (ustr_of ''BUY'')
   \<and> BITGET_SECRET example_config = Some ''secret''
   \<and> close_http env_buy = order_ok
   \<and> order_calls (fst (main_body example_config no_float_of_str env_buy))
       = [order_request example_config ''secret'' 1730000000000 (close_payload ''buy''),
          order_request example_config ''secret'' 1730000000500 (open_payload ''buy'')]"
proof -
  have h1: "snd (get_rsi_value example_config no_float_of_str (rsi_http env_buy)) = Some 25"
    by (simp add: env_buy_def rsi_ok_def get_rsi_value_def getitem_def py_float_def float_of_int_25)
  have h2: "snd (get_ai_decision example_config (chat env_buy) 25) = Inr (ustr_of ''BUY'')"
    by (simp add: get_ai_decision_def example_config_def env_buy_def Let_def upper_strip_BUY)
  have h3: "BITGET_SECRET example_config = Some ''secret''"
    by (simp add: example_config_def)
  have h4: \<open>close_http env_buy
             = Response \<lparr>status_code = 200, resp_text = ''{"code": "00000"}'',
                          resp_json = Some (JDict [(''code'', JStr ''00000'')])\<rparr>\<close>
    by (simp add: env_buy_def order_ok_def)
  have h5: "close_http env_buy = order_ok"
    by (simp add: env_buy_def)
  from close_then_open [OF h1 h2 h3 h4] h1 h2 h3 h5
  show ?thesis by (simp add: env_buy_def ustr_of_eq_iff)
qed

subsection \<open>C2\<close>

text \<open>
  C2, as stated: for all inputs the signing function returns base64 of the HMAC-SHA256,
  keyed by the secret, over the UTF-8 bytes of timestamp, upper-cased method, path and
  canonical body, where the canonical body is the compact JSON serialization of the body,
  or the empty string when the body is absent. For the empty dict, which is a body that
  is present, the specification signs \<^verbatim>\<open>{}\<close> and the program signs the empty string:
  the two signatures differ.
\<close>

theorem empty_dict_signature_counterexample:
  "generate_signature ''1730000000000'' ''POST'' ''/api/v2/mix/order/place-order'' (PDict [])
     ''secret''
   \<noteq> sign_spec ''1730000000000'' ''POST'' ''/api/v2/mix/order/place-order'' (PDict [])
       ''secret''"
  by (simp add: generate_signature_empty_dict sign_spec_empty_dict)

text \<open>
  C2, amended: for all inputs, with a body that \<^verbatim>\<open>json.dumps\<close> serializes, the signing
  function returns base64 of the HMAC-SHA256, keyed by the secret, over the UTF-8 bytes
  of timestamp, upper-cased method, path and canonical body, where the canonical body is
  the compact JSON serialization of the body, or the empty string when the body is absent
  or false as a condition (\<^verbatim>\<open>False\<close>, zero, the empty string, list or dict). The compact
  serialization inserts no whitespace: its whitespace characters are, one for one, those
  that its contents bring. The function is deterministic (identical inputs yield identical
  signatures) and does not mutate the body: after the call the body is what it was.
  The strings are those of the model, of code points below 256.
\<close>

theorem generate_signature_meets_spec:
  "generate_signature timestamp method path body secret
     = sign_spec timestamp method path (if truthy body then body else PNone) secret
   \<and> filter py_isspace (canonical_body_spec body)
       = (if body = PNone then [] else content_spaces body)
   \<and> (timestamp' = timestamp \<and> method' = method \<and> path' = path \<and> body' = body
        \<and> secret' = secret \<longrightarrow>
        generate_signature timestamp' method' path' body' secret'
          = generate_signature timestamp method path body secret)
   \<and> generate_signature_call timestamp method path body secret
       = (generate_signature timestamp method path body secret, body)"
proof (intro conjI impI)
  show "generate_signature timestamp method path body secret
     = sign_spec timestamp method path (if truthy body then body else PNone) secret"
  proof (cases "truthy body")
    case True
    then have "body \<noteq> PNone"
      by auto
    with True show ?thesis
      by (simp add: generate_signature_def sign_spec_def pre_hash_def body_str_def
          canonical_body_spec_def)
  next
    case False
    then show ?thesis
      by (simp add: generate_signature_def sign_spec_def pre_hash_def body_str_def
          canonical_body_spec_def)
  qed
next
  show "filter py_isspace (canonical_body_spec body)
          = (if body = PNone then [] else content_spaces body)"
    by (simp add: canonical_body_spec_def compact_dumps_spaces)
next
  assume "timestamp' = timestamp \<and> method' = method \<and> path' = path \<and> body' = body
            \<and> secret' = secret"
  then show "generate_signature timestamp' method' path' body' secret'
               = generate_signature timestamp method path body secret"
    by simp
next
  show "generate_signature_call timestamp method path body secret
          = (generate_signature timestamp method path body secret, body)"
    by (simp add: generate_signature_call_def)
qed

text \<open>
  At a body with a space in a value the compact serialization has that space and no
  other whitespace, while the default serialization of the same body has two more (after
  the colon of each item, and none after a comma here, the dict having one item).
\<close>

theorem generate_signature_meets_spec_witness:
  "generate_signature ''1730000000000'' ''POST'' ''/api/v2/mix/order/place-order''
     (PDict [(''clientOid'', PStr ''rsi bot'')]) ''secret''
     = sign_spec ''1730000000000'' ''POST'' ''/api/v2/mix/order/place-order''
         (PDict [(''clientOid'', PStr ''rsi bot'')]) ''secret''
   \<and> filter py_isspace (canonical_body_spec (PDict [(''clientOid'', PStr ''rsi bot'')])) = '' ''
   \<and> filter py_isspace (json_dumps_default (PDict [(''clientOid'', PStr ''rsi bot'')])) = ''  ''
   \<and> snd (generate_signature_call ''1730000000000'' ''POST'' ''/api/v2/mix/order/place-order''
            (PDict [(''clientOid'', PStr ''rsi bot'')]) ''secret'')
       = PDict [(''clientOid'', PStr ''rsi bot'')]"
proof -
  have h: "filter py_isspace (json_dumps_default (PDict [(''clientOid'', PStr ''rsi bot'')])) = ''  ''"
    by code_simp
  from generate_signature_meets_spec
         [of "''1730000000000''" "''POST''" "''/api/v2/mix/order/place-order''"
             "PDict [(''clientOid'', PStr ''rsi bot'')]" "''secret''"
             "''1730000000000''" "''POST''" "''/api/v2/mix/order/place-order''"
             "PDict [(''clientOid'', PStr ''rsi bot'')]" "''secret''"] h
  show ?thesis by simp
qed

subsection \<open>C3\<close>

text \<open>
  C3, as stated: for every advisory reply that is not exactly BUY or SELL, and for every
  advisory-call failure (transport or auth error), the decision resolves to NOTHING, no
  order call is made and the cycle does not crash. The client is built outside the
  \<^verbatim>\<open>try\<close> of \<^verbatim>\<open>get_ai_decision\<close>: with no API key configured, \<^verbatim>\<open>Groq(api_key=None)\<close>
  raises, nothing catches the exception, and the pass ends with it, whatever the advisor
  would have answered.
\<close>

theorem missing_api_key_crashes_counterexample:
  "GROQ_API_KEY (example_config\<lparr>GROQ_API_KEY := None\<rparr>) = None
   \<and> snd (get_rsi_value (example_config\<lparr>GROQ_API_KEY := None\<rparr>) no_float_of_str
            (rsi_http (env_buy\<lparr>chat := APIError\<rparr>))) = Some 25
   \<and> snd (get_ai_decision (example_config\<lparr>GROQ_API_KEY := None\<rparr>)
            (chat (env_buy\<lparr>chat := APIError\<rparr>)) 25) = Inl GroqError
   \<and> snd (main_body (example_config\<lparr>GROQ_API_KEY := None\<rparr>) no_float_of_str
            (env_buy\<lparr>chat := APIError\<rparr>)) = Inl GroqError"
proof -
  have r: "snd (get_rsi_value (example_config\<lparr>GROQ_API_KEY := None\<rparr>) no_float_of_str
                  (rsi_http (env_buy\<lparr>chat := APIError\<rparr>))) = Some 25"
    by (simp add: env_buy_def rsi_ok_def get_rsi_value_def getitem_def py_float_def float_of_int_25)
  have d: "snd (get_ai_decision (example_config\<lparr>GROQ_API_KEY := None\<rparr>)
                  (chat (env_buy\<lparr>chat := APIError\<rparr>)) 25) = Inl GroqError"
    by (simp add: get_ai_decision_def)
  have "snd (main_body (example_config\<lparr>GROQ_API_KEY := None\<rparr>) no_float_of_str
               (env_buy\<lparr>chat := APIError\<rparr>)) = Inl GroqError"
    using snd_main_body [OF r] d by simp
  with r d show ?thesis
    by simp
qed

text \<open>
  C3, amended: in a pass where the indicator has been read and an API key is configured
  (so that the client is built and the advisor is called): whenever the reply's
  stripped, upper-cased text is not exactly \<^verbatim>\<open>BUY\<close> and not exactly \<^verbatim>\<open>SELL\<close> (the empty
  text and longer texts included), and whenever the call fails (transport or auth error)
  or gives no text, the pass places no order and ends normally with the 300-second
  sleep; when the call fails the decision is \<^verbatim>\<open>NOTHING\<close>.
\<close>

theorem other_reply_places_no_order:
  assumes "snd (get_rsi_value cfg flt (rsi_http env)) = Some rsi"
    and "GROQ_API_KEY cfg = Some key"
    and "\<forall>content rest. chat env = Completion (Some content # rest) \<longrightarrow>
           py_upper (py_strip content) \<noteq> ustr_of ''BUY''
           \<and> py_upper (py_strip content) \<noteq> ustr_of ''SELL''"
  shows "order_calls (fst (main_body cfg flt env)) = []
       \<and> snd (main_body cfg flt env) = Inr ()
       \<and> last (fst (main_body cfg flt env)) = Sleep 300
       \<and> (chat env = APIError \<longrightarrow>
            snd (get_ai_decision cfg (chat env) rsi) = Inr (ustr_of ''NOTHING''))"
proof -
  obtain tr where g: "get_rsi_value cfg flt (rsi_http env) = (tr, Some rsi)"
    using assms(1) by (cases "get_rsi_value cfg flt (rsi_http env)") simp
  have "\<exists>d. snd (get_ai_decision cfg (chat env) rsi) = Inr d
             \<and> d \<noteq> ustr_of ''BUY'' \<and> d \<noteq> ustr_of ''SELL''"
  proof (cases "chat env")
    case APIError
    with assms(2) show ?thesis
      by (simp add: get_ai_decision_def Let_def ustr_of_eq_iff)
  next
    case (Completion choices)
    show ?thesis
    proof (cases choices)
      case Nil
      with Completion assms(2) show ?thesis
        by (simp add: get_ai_decision_def Let_def ustr_of_eq_iff)
    next
      case (Cons c rest)
      with Completion assms(2,3) show ?thesis
        by (cases c) (simp_all add: get_ai_decision_def Let_def ustr_of_eq_iff)
    qed
  qed
  then obtain d where d: "snd (get_ai_decision cfg (chat env) rsi) = Inr d"
    "d \<noteq> ustr_of ''BUY''" "d \<noteq> ustr_of ''SELL''"
    by blast
  have "order_calls (fst (main_body cfg flt env)) = []"
    using d by (simp add: order_calls_main_body [OF assms(1)])
  moreover have "snd (main_body cfg flt env) = Inr ()"
    using d by (simp add: snd_main_body [OF assms(1)])
  moreover have "last (fst (main_body cfg flt env)) = Sleep 300"
    using d by (simp add: main_body_def g fst_and_then snd_and_then)
  moreover have "chat env = APIError \<longrightarrow>
      snd (get_ai_decision cfg (chat env) rsi) = Inr (ustr_of ''NOTHING'')"
    using assms(2) by (simp add: get_ai_decision_def Let_def)
  ultimately show ?thesis by blast
qed

theorem other_reply_places_no_order_witness:
  "snd (get_rsi_value example_config no_float_of_str rsi_ok) = Some 25
   \<and> GROQ_API_KEY example_config = Some ''gsk''
   \<and> py_upper (py_strip ''SELL please, I'm confident'') \<noteq> ustr_of ''BUY''
   \<and> py_upper (py_strip ''SELL please, I'm confident'') \<noteq> ustr_of ''SELL''
   \<and> order_calls (fst (main_body example_config no_float_of_str
         (env_buy\<lparr>chat := Completion [Some ''SELL please, I'm confident'']\<rparr>))) = []
   \<and> snd (main_body example_config no_float_of_str
         (env_buy\<lparr>chat := Completion [Some ''SELL please, I'm confident'']\<rparr>)) = Inr ()"
proof -
  have h1: "snd (get_rsi_value example_config no_float_of_str
              (rsi_http (env_buy\<lparr>chat := Completion [Some ''SELL please, I'm confident'']\<rparr>)))
            = Some 25"
    by (simp add: env_buy_def rsi_ok_def get_rsi_value_def getitem_def py_float_def float_of_int_25)
  have h2: "GROQ_API_KEY example_config = Some ''gsk''"
    by (simp add: example_config_def)
  have h3: "\<forall>content rest.
              chat (env_buy\<lparr>chat := Completion [Some ''SELL please, I'm confident'']\<rparr>)
                = Completion (Some content # rest) \<longrightarrow>
              py_upper (py_strip content) \<noteq> ustr_of ''BUY''
           \<and> py_upper (py_strip content) \<noteq> ustr_of ''SELL''"
    by (simp add: upper_strip_SELL_please ustr_of_eq_iff)
  from other_reply_places_no_order [OF h1 h2 h3] h1 h2
  show ?thesis by (simp add: upper_strip_SELL_please env_buy_def ustr_of_eq_iff)
qed

subsection \<open>C4\<close>

text \<open>
  C4, as stated: for every indicator-fetch outcome that is a transport error, a non-200
  status, a JSON parse error or a missing numeric field, \<^verbatim>\<open>get_rsi_value\<close> returns
  \<^verbatim>\<open>None\<close> and the pass places no order. The code never reads the status code: a
  response with status 500 whose body is \<^verbatim>\<open>{"value": 50}\<close> gives the value 50, and
  with the advisor saying BUY the pass places both orders.
\<close>

theorem non_200_indicator_is_used_counterexample:
  \<open>rsi_status_500 = Response \<lparr>status_code = 500, resp_text = ''{"value": 50}'',
                                resp_json = Some (JDict [(''value'', JInt 50)])\<rparr>
   \<and> snd (get_rsi_value example_config no_float_of_str rsi_status_500) = Some 50
   \<and> order_calls (fst (main_body example_config no_float_of_str
          (env_buy\<lparr>rsi_http := rsi_status_500\<rparr>)))
       = [order_request example_config ''secret'' 1730000000000 (close_payload ''buy''),
          order_request example_config ''secret'' 1730000000500 (open_payload ''buy'')]\<close>
proof -
  have v: "snd (get_rsi_value example_config no_float_of_str rsi_status_500) = Some 50"
    by (simp add: rsi_status_500_def get_rsi_value_def getitem_def py_float_def float_of_int_50)
  then have r: "snd (get_rsi_value example_config no_float_of_str
                  (rsi_http (env_buy\<lparr>rsi_http := rsi_status_500\<rparr>))) = Some 50"
    by simp
  have s: "BITGET_SECRET example_config = Some ''secret''"
    by (simp add: example_config_def)
  have d: "snd (get_ai_decision example_config (Completion [Some ''BUY'']) 50)
             = Inr (ustr_of ''BUY'')"
    by (simp add: get_ai_decision_def example_config_def Let_def upper_strip_BUY)
  have c: "snd (close_position example_config 1730000000000 order_ok ''buy'') = Inr ()"
    by (simp add: snd_close_position s order_ok_def)
  have "order_calls (fst (main_body example_config no_float_of_str
          (env_buy\<lparr>rsi_http := rsi_status_500\<rparr>)))
       = [order_request example_config ''secret'' 1730000000000 (close_payload ''buy''),
          order_request example_config ''secret'' 1730000000500 (open_payload ''buy'')]"
    using order_calls_main_body [OF r]
    by (simp add: env_buy_def d c fst_and_then order_calls_append
        order_calls_close_position [OF s] order_calls_open_position [OF s])
  with v show ?thesis
    by (simp add: rsi_status_500_def)
qed

text \<open>
  C4, amended: for every indicator-fetch outcome that is a transport error, a JSON
  parse error, a document without a \<^verbatim>\<open>value\<close> field or a \<^verbatim>\<open>value\<close> that \<^verbatim>\<open>float\<close>
  rejects, \<^verbatim>\<open>get_rsi_value\<close> returns \<^verbatim>\<open>None\<close> rather than raising, and the pass calls
  neither the advisor nor the exchange: it goes directly to the 300-second sleep and
  ends normally. The status code of the response plays no part.
\<close>

theorem failed_indicator_fetch_skips_pass:
  assumes "rsi_http env = ConnectionError
         \<or> (\<exists>r. rsi_http env = Response r
                \<and> (resp_json r = None
                    \<or> (\<exists>data. resp_json r = Some data
                         \<and> (getitem data ''value'' = None
                             \<or> (\<exists>v. getitem data ''value'' = Some v \<and> py_float flt v = None)))))"
  shows "snd (get_rsi_value cfg flt (rsi_http env)) = None
       \<and> main_body cfg flt env
           = ([Print Msg_separator, Print Msg_checking, Http_get (TAAPI_URL cfg),
               Print Msg_rsi_failed, Print Msg_skipping, Sleep 300], Inr ())
       \<and> order_calls (fst (main_body cfg flt env)) = []"
proof -
  have g: "get_rsi_value cfg flt (rsi_http env)
             = ([Http_get (TAAPI_URL cfg), Print Msg_rsi_failed], None)"
    using assms by (auto simp: get_rsi_value_def)
  then show ?thesis
    by (simp add: main_body_def order_calls_def)
qed

theorem failed_indicator_fetch_skips_pass_witness:
  "rsi_http (env_buy\<lparr>rsi_http := ConnectionError\<rparr>) = ConnectionError
   \<and> snd (get_rsi_value example_config no_float_of_str ConnectionError) = None
   \<and> main_body example_config no_float_of_str (env_buy\<lparr>rsi_http := ConnectionError\<rparr>)
       = ([Print Msg_separator, Print Msg_checking, Http_get (TAAPI_URL example_config),
           Print Msg_rsi_failed, Print Msg_skipping, Sleep 300], Inr ())"
proof -
  have h: "rsi_http (env_buy\<lparr>rsi_http := ConnectionError\<rparr>) = ConnectionError"
    by simp
  from failed_indicator_fetch_skips_pass
         [of "env_buy\<lparr>rsi_http := ConnectionError\<rparr>" no_float_of_str example_config] h
  show ?thesis by simp
qed

subsection \<open>C5\<close>

text \<open>
  C5. For every exchange HTTP response whose body fails to parse as JSON (malformed or
  empty), \<^verbatim>\<open>bitget_request\<close> does not raise: it returns the dict
  \<^verbatim>\<open>{"error": response.text}\<close>, which carries the raw response text.
\<close>

theorem unparsable_response_is_returned_as_error:
  assumes "BITGET_SECRET cfg = Some secret" and "resp_json r = None"
  shows "snd (bitget_request cfg now (Response r) method endpoint payload)
           = Inr (JDict [(''error'', JStr (resp_text r))])"
  using assms by (simp add: bitget_request_def Let_def)

theorem unparsable_response_is_returned_as_error_witness:
  "BITGET_SECRET example_config = Some ''secret''
   \<and> snd (bitget_request example_config 1730000000000 order_not_json ''POST''
            ''/api/v2/mix/order/place-order'' (Some (open_payload ''buy'')))
       = Inr (JDict [(''error'', JStr ''<html>Bad Gateway</html>'')])"
proof -
  have h1: "BITGET_SECRET example_config = Some ''secret''"
    by (simp add: example_config_def)
  have h2: "resp_json \<lparr>status_code = 502, resp_text = ''<html>Bad Gateway</html>'',
                       resp_json = None\<rparr> = None"
    by simp
  from unparsable_response_is_returned_as_error [OF h1 h2] h1
  show ?thesis by (simp add: order_not_json_def)
qed

subsection \<open>C6\<close>

text \<open>
  C6, as stated: for every indicator value, \<^verbatim>\<open>get_ai_decision\<close> returns one of the
  three labels BUY, SELL, NOTHING. The code returns the reply's text as it is, stripped
  and upper-cased: for the reply \<^verbatim>\<open>SELL please, I'm confident\<close> it returns
  \<^verbatim>\<open>SELL PLEASE, I'M CONFIDENT\<close>.
\<close>

theorem advisor_returns_other_text_counterexample:
  "snd (get_ai_decision example_config (Completion [Some ''SELL please, I'm confident'']) 25)
     = Inr (ustr_of ''SELL PLEASE, I'M CONFIDENT'')
   \<and> ''SELL PLEASE, I'M CONFIDENT'' \<notin> {''BUY'', ''SELL'', ''NOTHING''}"
  by (simp add: get_ai_decision_def example_config_def upper_strip_SELL_please Let_def)

text \<open>
  C6, amended: for every indicator value, \<^verbatim>\<open>get_ai_decision\<close> (with an API key
  configured) returns the stripped, upper-cased text of the first choice of the reply,
  whatever that text is, and \<^verbatim>\<open>NOTHING\<close> when the call fails or the reply has no first
  choice with a text. It is the scheduler that makes three cases of the value: in a pass
  where the value returned is neither \<^verbatim>\<open>BUY\<close> nor \<^verbatim>\<open>SELL\<close>, it reports that there is
  nothing to do, places no order and ends the pass normally. The reply's text is a
  string of the model, of code points below 256; upper-casing may take it out of that
  range, so the value returned is a list of code points.
\<close>

theorem advisor_returns_reply_text_or_nothing:
  assumes "GROQ_API_KEY cfg = Some key"
  shows "snd (get_ai_decision cfg reply rsi_value) =
           Inr (case reply of
                  Completion (Some content # _) \<Rightarrow> py_upper (py_strip content)
                | _ \<Rightarrow> ustr_of ''NOTHING'')
       \<and> (snd (get_rsi_value cfg flt (rsi_http env)) = Some rsi
            \<and> snd (get_ai_decision cfg (chat env) rsi) = Inr decision
            \<and> decision \<noteq> ustr_of ''BUY'' \<and> decision \<noteq> ustr_of ''SELL'' \<longrightarrow>
            Print Msg_nothing \<in> set (fst (main_body cfg flt env))
            \<and> order_calls (fst (main_body cfg flt env)) = []
            \<and> snd (main_body cfg flt env) = Inr ())"
proof (intro conjI impI)
  show "snd (get_ai_decision cfg reply rsi_value) =
           Inr (case reply of
                  Completion (Some content # _) \<Rightarrow> py_upper (py_strip content)
                | _ \<Rightarrow> ustr_of ''NOTHING'')"
    using assms
    by (simp add: get_ai_decision_def Let_def split: chat_result.splits list.splits option.splits)
next
  assume a: "snd (get_rsi_value cfg flt (rsi_http env)) = Some rsi
            \<and> snd (get_ai_decision cfg (chat env) rsi) = Inr decision
            \<and> decision \<noteq> ustr_of ''BUY'' \<and> decision \<noteq> ustr_of ''SELL''"
  then have r: "snd (get_rsi_value cfg flt (rsi_http env)) = Some rsi"
    and d: "snd (get_ai_decision cfg (chat env) rsi) = Inr decision"
      "decision \<noteq> ustr_of ''BUY''" "decision \<noteq> ustr_of ''SELL''"
    by simp_all
  obtain tr where g: "get_rsi_value cfg flt (rsi_http env) = (tr, Some rsi)"
    using r by (cases "get_rsi_value cfg flt (rsi_http env)") simp
  show "Print Msg_nothing \<in> set (fst (main_body cfg flt env))"
    using d by (simp add: main_body_def g fst_and_then snd_and_then)
  show "order_calls (fst (main_body cfg flt env)) = []"
    using d by (simp add: order_calls_main_body [OF r])
  show "snd (main_body cfg flt env) = Inr ()"
    using d by (simp add: snd_main_body [OF r])
qed

theorem advisor_returns_reply_text_or_nothing_witness:
  "GROQ_API_KEY example_config = Some ''gsk''
   \<and> snd (get_ai_decision example_config (Completion [Some ''BUY'']) 25) = Inr (ustr_of ''BUY'')
   \<and> snd (get_ai_decision example_config APIError 25) = Inr (ustr_of ''NOTHING'')
   \<and> snd (get_rsi_value example_config no_float_of_str
            (rsi_http (env_buy\<lparr>chat := Completion [Some ''SELL please, I'm confident'']\<rparr>)))
       = Some 25
   \<and> snd (get_ai_decision example_config
            (chat (env_buy\<lparr>chat := Completion [Some ''SELL please, I'm confident'']\<rparr>)) 25)
       = Inr (ustr_of ''SELL PLEASE, I'M CONFIDENT'')
   \<and> Print Msg_nothing \<in> set (fst (main_body example_config no_float_of_str
         (env_buy\<lparr>chat := Completion [Some ''SELL please, I'm confident'']\<rparr>)))
   \<and> order_calls (fst (main_body example_config no_float_of_str
         (env_buy\<lparr>chat := Completion [Some ''SELL please, I'm confident'']\<rparr>))) = []"
proof -
  have h: "GROQ_API_KEY example_config = Some ''gsk''"
    by (simp add: example_config_def)
  have r: "snd (get_rsi_value example_config no_float_of_str
             (rsi_http (env_buy\<lparr>chat := Completion [Some ''SELL please, I'm confident'']\<rparr>)))
           = Some 25"
    by (simp add: env_buy_def rsi_ok_def get_rsi_value_def getitem_def py_float_def float_of_int_25)
  have d: "snd (get_ai_decision example_config
             (chat (env_buy\<lparr>chat := Completion [Some ''SELL please, I'm confident'']\<rparr>)) 25)
           = Inr (ustr_of ''SELL PLEASE, I'M CONFIDENT'')"
    by (simp add: get_ai_decision_def example_config_def upper_strip_SELL_please Let_def)
  have n: "ustr_of ''SELL PLEASE, I'M CONFIDENT'' \<noteq> ustr_of ''BUY''"
    "ustr_of ''SELL PLEASE, I'M CONFIDENT'' \<noteq> ustr_of ''SELL''"
    by (simp_all add: ustr_of_eq_iff)
  from advisor_returns_reply_text_or_nothing
         [OF h, of "Completion [Some ''BUY'']" 25 no_float_of_str
            "env_buy\<lparr>chat := Completion [Some ''SELL please, I'm confident'']\<rparr>" 25
            "ustr_of ''SELL PLEASE, I'M CONFIDENT''"]
       advisor_returns_reply_text_or_nothing
         [OF h, of APIError 25 no_float_of_str
            "env_buy\<lparr>chat := Completion [Some ''SELL please, I'm confident'']\<rparr>" 25
            "ustr_of ''SELL PLEASE, I'M CONFIDENT''"]
       h r d n
  show ?thesis by (simp add: upper_strip_BUY)
qed

subsection \<open>C7\<close>

text \<open>
  C7. For every side argument, the payload that \<^verbatim>\<open>close_position\<close> sends has
  \<^verbatim>\<open>tradeSide\<close> \<^verbatim>\<open>close\<close>, the fixed size \<^verbatim>\<open>1000\<close> and as \<^verbatim>\<open>side\<close> the opposite of
  the side about to be opened (\<^verbatim>\<open>sell\<close> for \<^verbatim>\<open>buy\<close>, \<^verbatim>\<open>buy\<close> for \<^verbatim>\<open>sell\<close>); the payload
  that \<^verbatim>\<open>open_position\<close> sends has the side itself, \<^verbatim>\<open>tradeSide\<close> \<^verbatim>\<open>open\<close> and the fixed
  size \<^verbatim>\<open>0.05\<close>, which is not the close size. The payloads depend on the side only:
  whatever the configuration, the clock and the exchange's answer, these are the
  payloads of the one request each operation sends.
\<close>

theorem close_and_open_payloads:
  "map_of (close_payload side) ''tradeSide'' = Some ''close''
   \<and> map_of (close_payload side) ''size'' = Some ''1000''
   \<and> (side = ''buy'' \<longrightarrow> map_of (close_payload side) ''side'' = Some ''sell'')
   \<and> (side = ''sell'' \<longrightarrow> map_of (close_payload side) ''side'' = Some ''buy'')
   \<and> map_of (open_payload side) ''tradeSide'' = Some ''open''
   \<and> map_of (open_payload side) ''size'' = Some ''0.05''
   \<and> map_of (open_payload side) ''side'' = Some side
   \<and> map_of (close_payload side) ''size'' \<noteq> map_of (open_payload side) ''size''
   \<and> (BITGET_SECRET cfg = Some secret \<longrightarrow>
        order_calls (fst (close_position cfg now http side))
          = [order_request cfg secret now (close_payload side)]
        \<and> order_calls (fst (open_position cfg now http side))
          = [order_request cfg secret now (open_payload side)])"
  by (simp add: close_payload_def open_payload_def Let_def
      order_calls_close_position [unfolded close_payload_def Let_def]
      order_calls_open_position [unfolded open_payload_def])

theorem close_and_open_payloads_witness:
  "map_of (close_payload ''buy'') ''side'' = Some ''sell''
   \<and> map_of (close_payload ''sell'') ''side'' = Some ''buy''
   \<and> BITGET_SECRET example_config = Some ''secret''
   \<and> order_calls (fst (close_position example_config 1730000000000 order_rejected ''buy''))
       = [order_request example_config ''secret'' 1730000000000 (close_payload ''buy'')]
   \<and> order_calls (fst (open_position example_config 1730000000000 order_rejected ''buy''))
       = [order_request example_config ''secret'' 1730000000000 (open_payload ''buy'')]"
proof -
  have h: "BITGET_SECRET example_config = Some ''secret''"
    by (simp add: example_config_def)
  from close_and_open_payloads [of "''buy''" example_config "''secret''" 1730000000000 order_rejected]
       close_and_open_payloads [of "''sell''" example_config "''secret''" 1730000000000 order_rejected]
       h
  show ?thesis by simp
qed

subsection \<open>C8\<close>

text \<open>
  C8, as stated: for every exchange request, successful or not, \<^verbatim>\<open>bitget_request\<close>
  surfaces both the HTTP status code and the parsed-or-raw body to its caller. The code
  returns the body only: an accepted order (status 200) and a rejected one (status 400)
  with the same body give the caller the same value. And when the request itself fails
  (no connection), the exception leaves \<^verbatim>\<open>bitget_request\<close>: the caller gets neither a
  status nor a body.
\<close>

theorem status_not_returned_counterexample:
  \<open>snd (bitget_request example_config 1730000000000 order_ok ''POST''
          ''/api/v2/mix/order/place-order'' (Some (open_payload ''buy'')))
     = snd (bitget_request example_config 1730000000000 order_rejected ''POST''
          ''/api/v2/mix/order/place-order'' (Some (open_payload ''buy'')))
   \<and> order_ok = Response \<lparr>status_code = 200, resp_text = ''{"code": "00000"}'',
                           resp_json = Some (JDict [(''code'', JStr ''00000'')])\<rparr>
   \<and> order_rejected = Response \<lparr>status_code = 400, resp_text = ''{"code": "00000"}'',
                           resp_json = Some (JDict [(''code'', JStr ''00000'')])\<rparr>
   \<and> snd (bitget_request example_config 1730000000000 ConnectionError ''POST''
          ''/api/v2/mix/order/place-order'' (Some (open_payload ''buy'')))
       = Inl RequestException\<close>
  by (simp add: bitget_request_def Let_def example_config_def order_ok_def order_rejected_def)

text \<open>
  C8, amended: for every exchange request that gets an HTTP response, whatever its
  status, \<^verbatim>\<open>bitget_request\<close> prints the status code and the parsed-or-raw body, and
  returns the parsed-or-raw body (without the status code) to its caller, where the
  parsed-or-raw body is the parsed JSON document or, when parsing fails,
  \<^verbatim>\<open>{"error": response.text}\<close>.
\<close>

theorem status_and_body_printed_body_returned:
  assumes "BITGET_SECRET cfg = Some secret"
  shows "\<exists>call result.
           bitget_request cfg now (Response r) method endpoint payload
             = ([call, Print (Msg_request method endpoint (status_code r)),
                 Print (Msg_result result)], Inr result)
           \<and> result = (case resp_json r of
                         Some parsed \<Rightarrow> parsed
                       | None \<Rightarrow> JDict [(''error'', JStr (resp_text r))])"
  using assms by (simp add: bitget_request_def Let_def)

theorem status_and_body_printed_body_returned_witness:
  "BITGET_SECRET example_config = Some ''secret''
   \<and> (\<exists>call. bitget_request example_config 1730000000000 order_rejected ''POST''
                ''/api/v2/mix/order/place-order'' (Some (open_payload ''buy''))
              = ([call, Print (Msg_request ''POST'' ''/api/v2/mix/order/place-order'' 400),
                  Print (Msg_result (JDict [(''code'', JStr ''00000'')]))],
                 Inr (JDict [(''code'', JStr ''00000'')])))"
proof -
  have h: "BITGET_SECRET example_config = Some ''secret''"
    by (simp add: example_config_def)
  from status_and_body_printed_body_returned [OF h, of 1730000000000
         \<open>\<lparr>status_code = 400, resp_text = ''{"code": "00000"}'',
           resp_json = Some (JDict [(''code'', JStr ''00000'')])\<rparr>\<close>
         "''POST''" "''/api/v2/mix/order/place-order''" "Some (open_payload ''buy'')"] h
  show ?thesis by (simp add: order_rejected_def)
qed

subsection \<open>C9\<close>

text \<open>
  C9. For every non-empty order payload, the bytes over which the signature is computed
  (the compact JSON serialization, separators \<^verbatim>\<open>","\<close> and \<^verbatim>\<open>":"\<close>) differ from the
  HTTP request body that is transmitted (the default serialization, with a space after
  each separator): \<^verbatim>\<open>bitget_request\<close> sends \<open>json_dumps_default\<close> of the payload under
  a signature of the pre-hash string that ends in \<open>body_str\<close> of the payload, and the two
  have different UTF-8 encodings. Here \<open>of_payload (Some p)\<close> is the payload \<open>p\<close>, a dict
  of strings, as a value.
\<close>

theorem signature_does_not_cover_sent_body:
  assumes "p \<noteq> []" and "BITGET_SECRET cfg = Some secret"
  shows "(\<exists>rest. fst (bitget_request cfg now http method endpoint (Some p))
            = Http_request method (BASE_URL @ endpoint)
                (bitget_headers cfg
                   (generate_signature (str_int now) method endpoint (of_payload (Some p)) secret)
                   (str_int now))
                (json_dumps_default (of_payload (Some p))) # rest)
       \<and> generate_signature (str_int now) method endpoint (of_payload (Some p)) secret
            = b64encode (hmac_sha256 (encode_utf8 (ustr_of secret))
                (encode_utf8
                   (ustr_of (str_int now) @ py_upper method @ ustr_of endpoint
                      @ ustr_of (body_str (of_payload (Some p))))))
       \<and> body_str (of_payload (Some p)) = json_dumps '','' '':'' (of_payload (Some p))
       \<and> encode_utf8 (ustr_of (body_str (of_payload (Some p))))
            \<noteq> encode_utf8 (ustr_of (json_dumps_default (of_payload (Some p))))"
proof (intro conjI)
  show "\<exists>rest. fst (bitget_request cfg now http method endpoint (Some p))
            = Http_request method (BASE_URL @ endpoint)
                (bitget_headers cfg
                   (generate_signature (str_int now) method endpoint (of_payload (Some p)) secret)
                   (str_int now))
                (json_dumps_default (of_payload (Some p))) # rest"
    using assms(2) by (cases http) (simp_all add: bitget_request_def Let_def)
  show "generate_signature (str_int now) method endpoint (of_payload (Some p)) secret
            = b64encode (hmac_sha256 (encode_utf8 (ustr_of secret))
                (encode_utf8
                   (ustr_of (str_int now) @ py_upper method @ ustr_of endpoint
                      @ ustr_of (body_str (of_payload (Some p))))))"
    by (simp add: generate_signature_def pre_hash_def)
  show "body_str (of_payload (Some p)) = json_dumps '','' '':'' (of_payload (Some p))"
    using assms(1) by (simp add: body_str_def truthy_payload)
  show "encode_utf8 (ustr_of (body_str (of_payload (Some p))))
          \<noteq> encode_utf8 (ustr_of (json_dumps_default (of_payload (Some p))))"
    using compact_shorter [OF assms(1)] encode_utf8_inj by fastforce
qed

theorem signature_does_not_cover_sent_body_witness:
  "open_payload ''buy'' \<noteq> [] \<and> BITGET_SECRET example_config = Some ''secret''
   \<and> encode_utf8 (ustr_of (body_str (of_payload (Some (open_payload ''buy'')))))
       \<noteq> encode_utf8 (ustr_of (json_dumps_default (of_payload (Some (open_payload ''buy'')))))"
proof -
  have h1: "open_payload ''buy'' \<noteq> []"
    by (simp add: open_payload_def)
  have h2: "BITGET_SECRET example_config = Some ''secret''"
    by (simp add: example_config_def)
  from signature_does_not_cover_sent_body
         [OF h1 h2, of 1730000000500 order_ok "''POST''" "''/api/v2/mix/order/place-order''"]
  have "encode_utf8 (ustr_of (body_str (of_payload (Some (open_payload ''buy'')))))
          \<noteq> encode_utf8 (ustr_of (json_dumps_default (of_payload (Some (open_payload ''buy'')))))"
    by blast
  with h1 h2 show ?thesis by blast
qed

subsection \<open>C10\<close>

text \<open>
  C10. For every timestamp, method, path and secret, signing with an empty-dictionary
  body yields the same signature as signing with an absent (\<^verbatim>\<open>None\<close>) body: both bodies
  canonicalize to the empty string, because the body is tested for truthiness, not for
  presence.
\<close>

theorem empty_dict_signs_as_none:
  "generate_signature timestamp method request_path (PDict []) secret_key
     = generate_signature timestamp method request_path PNone secret_key
   \<and> body_str (PDict []) = '''' \<and> body_str PNone = ''''"
  by (simp add: generate_signature_def pre_hash_def body_str_def)

end
